theory Spec2Isabelle
  imports Main "HOL-Library.Word" "HOL-Library.Signed_Division"
begin

unbundle bit_operations_syntax

section \<open>Machine integers of gad.c\<close>

type_synonym u8 = "8 word"
type_synonym i32 = "32 word"
type_synonym u32 = "32 word"
type_synonym i64 = "64 word"

text \<open>
  C's \<open>/\<close> on \<open>int64_t\<close>: the quotient of the two's complement values, truncated
  towards zero, stored back into 64 bits.
\<close>

definition sdiv64 :: "i64 \<Rightarrow> i64 \<Rightarrow> i64" where
  "sdiv64 a b = word_of_int (sint a sdiv sint b)"

section \<open>Quantizer: latitude\<close>

text \<open>
  \<open>uint32_t osmo_gad_enc_lat(int32_t lat_deg_1e6)\<close>. The local \<open>sign\<close> is an
  \<open>int32_t\<close>, \<open>x\<close> an \<open>int64_t\<close>; the returned expression is computed in 64 bits
  and converted to \<open>uint32_t\<close>.
\<close>

definition osmo_gad_enc_lat :: "i32 \<Rightarrow> u32" where
  "osmo_gad_enc_lat lat_deg_1e6 =
     (let sign = (if sint lat_deg_1e6 < 0 then push_bit 23 1 else 0 :: i32);
          lat = (if sint lat_deg_1e6 < 0 then - lat_deg_1e6 else lat_deg_1e6);
          x = (scast lat :: i64);
          x = push_bit 23 x;
          x = x + (push_bit 23 1 - 1);
          x = sdiv64 x (90 * 1000000)
      in ucast ((scast sign :: i64) OR (x AND 0x7fffff)))"

text \<open>\<open>uint32_t osmo_gad_dec_lat(int32_t lat)\<close>; \<open>>>\<close> on \<open>int64_t\<close> is arithmetic.\<close>

definition osmo_gad_dec_lat :: "i32 \<Rightarrow> u32" where
  "osmo_gad_dec_lat lat0 =
     (let neg = (lat0 AND 0x800000 \<noteq> 0);
          sign = (if neg then - 1 else 1 :: i64);
          lat = (if neg then lat0 AND 0x7fffff else lat0);
          x = (scast lat :: i64);
          x = x * (90 * 1000000);
          x = signed_drop_bit 23 x;
          x = x * sign
      in ucast x)"

section \<open>Quantizer: longitude\<close>

text \<open>
  \<open>uint32_t osmo_gad_enc_lon(int32_t lon_deg_1e6)\<close>: the 64-bit product is offset away
  from zero by \<open>2^24 - 1\<close> and divided with C's truncating division.
\<close>

definition osmo_gad_enc_lon :: "i32 \<Rightarrow> u32" where
  "osmo_gad_enc_lon lon_deg_1e6 =
     (let x = (scast lon_deg_1e6 :: i64);
          x = x * push_bit 24 1;
          x = (if 0 \<le> sint lon_deg_1e6 then x + (push_bit 24 1 - 1)
               else x - (push_bit 24 1 - 1));
          x = sdiv64 x (360 * 1000000)
      in ucast (x AND 0xffffff))"

text \<open>\<open>uint32_t osmo_gad_dec_lon(int32_t lon)\<close>: sign-extends the 24-bit code first.\<close>

definition osmo_gad_dec_lon :: "i32 \<Rightarrow> u32" where
  "osmo_gad_dec_lon lon0 =
     (let lon = (if lon0 AND 0x800000 \<noteq> 0 then lon0 OR 0xff000000 else lon0);
          x = (scast lon :: i64);
          x = x * (360 * 1000000);
          x = sdiv64 x (push_bit 24 1)
      in ucast x)"

section \<open>Quantizer: uncertainty\<close>

definition table_uncertainty_1e3 :: "u32 list" where
  "table_uncertainty_1e3 =
    [0, 1000, 2100, 3310, 4641, 6105, 7715, 9487, 11435, 13579, 15937, 18531, 21384, 24522,
     27974, 31772, 35949, 40544, 45599, 51159, 57274, 64002, 71402, 79543, 88497, 98347,
     109181, 121099, 134209, 148630, 164494, 181943, 201137, 222251, 245476, 271024, 299126,
     330039, 364043, 401447, 442592, 487851, 537636, 592400, 652640, 718904, 791795, 871974,
     960172, 1057189, 1163908, 1281299, 1410429, 1552472, 1708719, 1880591, 2069650, 2277615,
     2506377, 2758014, 3034816, 3339298, 3674227, 4042650, 4447915, 4893707, 5384077, 5923485,
     6516834, 7169517, 7887469, 8677216, 9545938, 10501531, 11552685, 12708953, 13980849,
     15379933, 16918927, 18611820, 20474002, 22522402, 24775642, 27254206, 29980627, 32979690,
     36278659, 39907525, 43899277, 48290205, 53120226, 58433248, 64277573, 70706330, 77777964,
     85556760, 94113436, 103525780, 113879358, 125268293, 137796123, 151576735, 166735409,
     183409950, 201751945, 221928139, 244121953, 268535149, 295389664, 324929630, 357423593,
     393166952, 432484648, 475734112, 523308524, 575640376, 633205414, 696526955, 766180651,
     842799716, 927080688, 1019789756, 1121769732, 1233947705, 1357343476, 1493078824,
     1642387706, 1806627477]"

text \<open>\<open>uint32_t osmo_gad_dec_unc(uint8_t unc)\<close>: the index is masked to 7 bits.\<close>

definition osmo_gad_dec_unc :: "u8 \<Rightarrow> u32" where
  "osmo_gad_dec_unc unc = table_uncertainty_1e3 ! unat (unc AND 0x7f)"

text \<open>
  The \<open>for\<close> loop of \<open>osmo_gad_enc_unc\<close>, entered with the loop variable \<open>unc\<close>
  (a \<open>uint8_t\<close>): it runs while \<open>unc < ARRAY_SIZE(table_uncertainty_1e3) = 128\<close>,
  returns \<open>unc - 1\<close> at the first entry above \<open>mm\<close>, and 127 when it runs out.
\<close>

function enc_unc_loop :: "u8 \<Rightarrow> u32 \<Rightarrow> u8" where
  "enc_unc_loop unc mm =
     (if unc < 128 then
        (if mm < table_uncertainty_1e3 ! unat unc then unc - 1
         else enc_unc_loop (unc + 1) mm)
      else 127)"
  by pat_completeness auto
termination
proof (relation "measure (\<lambda>(unc, mm). 128 - unat unc)")
  show "wf (measure (\<lambda>(unc :: u8, mm :: u32). 128 - unat unc))" by simp
next
  fix unc :: u8 and mm :: u32
  assume a: "unc < 128"
  then have "unat unc < 128" by (simp add: word_less_nat_alt)
  moreover from this have "unat (unc + 1) = unat unc + 1"
    by (simp add: unat_word_ariths)
  ultimately show "((unc + 1, mm), (unc, mm)) \<in> measure (\<lambda>(unc, mm). 128 - unat unc)"
    by simp
qed

definition osmo_gad_enc_unc :: "u32 \<Rightarrow> u8" where
  "osmo_gad_enc_unc mm = enc_unc_loop 0 mm"

section \<open>Data model\<close>

text \<open>
  \<open>enum gad_type\<close>. The discriminator is kept as an integer, since the field holds
  whatever the caller or the wire put there; on decode it is the high nibble of the first
  byte, and \<open>DEC_ERR\<close> is also called with the literal \<open>-1\<close>.
\<close>

definition GAD_TYPE_ELL_POINT :: int where "GAD_TYPE_ELL_POINT = 0"
definition GAD_TYPE_ELL_POINT_UNC_CIRCLE :: int where "GAD_TYPE_ELL_POINT_UNC_CIRCLE = 1"
definition GAD_TYPE_ELL_POINT_UNC_ELLIPSE :: int where "GAD_TYPE_ELL_POINT_UNC_ELLIPSE = 3"
definition GAD_TYPE_POLYGON :: int where "GAD_TYPE_POLYGON = 5"
definition GAD_TYPE_ELL_POINT_ALT :: int where "GAD_TYPE_ELL_POINT_ALT = 8"
definition GAD_TYPE_ELL_POINT_ALT_UNC_ELL :: int where "GAD_TYPE_ELL_POINT_ALT_UNC_ELL = 9"
definition GAD_TYPE_ELL_ARC :: int where "GAD_TYPE_ELL_ARC = 10"
definition GAD_TYPE_HA_ELL_POINT_UNC_ELLIPSE :: int where
  "GAD_TYPE_HA_ELL_POINT_UNC_ELLIPSE = 11"
definition GAD_TYPE_HA_ELL_POINT_ALT_UNC_ELL :: int where
  "GAD_TYPE_HA_ELL_POINT_ALT_UNC_ELL = 12"

text \<open>
  \<open>struct gad_ell_point\<close> and \<open>struct gad_ell_point_unc_circle\<close>. The second begins
  with the fields of the first, so it is written as an extension of it.
\<close>

record gad_ell_point =
  lat :: i32
  lon :: i32

record gad_ell_point_unc_circle = gad_ell_point +
  unc :: u32

text \<open>
  \<open>struct gad_pdu\<close>: the discriminator and an anonymous union. gad.c reaches the union
  only through its members \<open>ell_point\<close> and \<open>ell_point_unc_circle\<close>, which overlay each
  other from the union's first byte. The union's storage is therefore kept as the
  \<open>ell_point_unc_circle\<close> view of its first three words, followed by the remaining bytes
  \<open>u_rest\<close> that belong only to the larger members.
\<close>

record gad_pdu =
  type :: int
  ell_point_unc_circle :: gad_ell_point_unc_circle
  u_rest :: "u8 list"

text \<open>The member \<open>ell_point\<close>: the first two words of the same storage.\<close>

definition ell_point :: "gad_pdu \<Rightarrow> gad_ell_point" where
  "ell_point gad = \<lparr>lat = lat (ell_point_unc_circle gad), lon = lon (ell_point_unc_circle gad)\<rparr>"

text \<open>The assignment \<open>*gad = (struct gad_pdu){}\<close>.\<close>

definition gad_pdu_zero :: "gad_pdu \<Rightarrow> gad_pdu" where
  "gad_pdu_zero gad =
     \<lparr>type = 0, ell_point_unc_circle = \<lparr>lat = 0, lon = 0, unc = 0\<rparr>,
      u_rest = replicate (length (u_rest gad)) 0\<rparr>"

text \<open>\<open>struct osmo_gad_err\<close>.\<close>

record osmo_gad_err =
  rc :: int
  err_type :: int
  logmsg :: string

text \<open>The values of \<open>errno.h\<close> on Linux.\<close>

definition EINVAL :: int where "EINVAL = 22"
definition ENOTSUP :: int where "ENOTSUP = 95"

section \<open>Collaborators outside gad.c\<close>

text \<open>
  printf's \<open>%u\<close> and \<open>%x\<close> conversions: decimal and lower-case hexadecimal digits,
  without padding.
\<close>

definition digit_char :: "nat \<Rightarrow> char" where
  "digit_char d = ''0123456789abcdef'' ! d"

fun fmt_u :: "nat \<Rightarrow> string" where
  "fmt_u n = (if n < 10 then [digit_char n] else fmt_u (n div 10) @ [digit_char (n mod 10)])"

fun fmt_x :: "nat \<Rightarrow> string" where
  "fmt_x n = (if n < 16 then [digit_char n] else fmt_x (n div 16) @ [digit_char (n mod 16)])"

text \<open>
  Modelled from the spec: the message buffer \<open>struct msgb\<close> and its \<open>msgb_put\<close>,
  \<open>msgb_put_u8\<close> (msgb.h is not among the sources). The spec describes an append-only
  growable byte buffer; the model is the list of bytes between \<open>msg->data\<close> and
  \<open>msg->tail\<close>, and putting bytes appends them at the tail.
\<close>

type_synonym msgb = "u8 list"

definition msgb_put_u8 :: "msgb \<Rightarrow> u8 \<Rightarrow> msgb" where
  "msgb_put_u8 msg b = msg @ [b]"

text \<open>
  Modelled from the spec: \<open>osmo_store32be_ext(val, pos, n)\<close> and
  \<open>osmo_load32be_ext_2(p, n)\<close> (bit32gen.h is not among the sources). The spec's wire
  format has big-endian multi-byte fields: the store writes the low \<open>n\<close> bytes of \<open>val\<close>,
  most significant first, and the load reads \<open>n\<close> bytes, most significant first, into the
  low bytes of the result.
\<close>

definition osmo_store32be_ext :: "u32 \<Rightarrow> nat \<Rightarrow> u8 list" where
  "osmo_store32be_ext val n = map (\<lambda>i. ucast (drop_bit ((n - 1 - i) * 8) val AND 0xFF)) [0..<n]"

definition osmo_load32be_ext_2 :: "u8 list \<Rightarrow> nat \<Rightarrow> u32" where
  "osmo_load32be_ext_2 p n =
     fold (\<lambda>i r. r OR push_bit (8 * (n - 1 - i)) (ucast (p ! i))) [0..<n] 0"

text \<open>\<open>static void put_u24be(struct msgb *msg, uint32_t val)\<close>.\<close>

definition put_u24be :: "msgb \<Rightarrow> u32 \<Rightarrow> msgb" where
  "put_u24be msg val = msg @ osmo_store32be_ext val 3"

text \<open>The table \<open>osmo_gad_type_names\<close>.\<close>

definition osmo_gad_type_names :: "(int \<times> string) list" where
  "osmo_gad_type_names =
    [(GAD_TYPE_ELL_POINT, ''Ellipsoid-point''),
     (GAD_TYPE_ELL_POINT_UNC_CIRCLE, ''Ellipsoid-point-with-uncertainty-circle''),
     (GAD_TYPE_ELL_POINT_UNC_ELLIPSE, ''Ellipsoid-point-with-uncertainty-ellipse''),
     (GAD_TYPE_POLYGON, ''Polygon''),
     (GAD_TYPE_ELL_POINT_ALT, ''Ellipsoid-point-with-altitude''),
     (GAD_TYPE_ELL_POINT_ALT_UNC_ELL,
        ''Ellipsoid-point-with-altitude-and-uncertainty-ellipsoid''),
     (GAD_TYPE_ELL_ARC, ''Ellipsoid-arc''),
     (GAD_TYPE_HA_ELL_POINT_UNC_ELLIPSE,
        ''High-accuracy-ellipsoid-point-with-uncertainty-ellipse''),
     (GAD_TYPE_HA_ELL_POINT_ALT_UNC_ELL,
        ''High-accuracy-ellipsoid-point-with-altitude-and-uncertainty-ellipsoid'')]"

text \<open>
  Modelled from the spec: \<open>get_value_string\<close>, called by \<open>osmo_gad_type_name\<close> (gad.h);
  utils.c is not among the sources. The spec has a static discriminator-to-name lookup that
  yields the type name of a recognized value. What the lookup returns for a value that is
  not in the table is left open, as the parameter \<open>unk\<close>.
\<close>

definition osmo_gad_type_name :: "(int \<Rightarrow> string) \<Rightarrow> int \<Rightarrow> string" where
  "osmo_gad_type_name unk val =
     (case map_of osmo_gad_type_names val of Some str \<Rightarrow> str | None \<Rightarrow> unk val)"

section \<open>Error reporter\<close>

text \<open>
  The macro \<open>DEC_ERR(RC, TYPE, fmt, args...)\<close>. It returns \<open>RC\<close> from the enclosing
  function; what it leaves in \<open>*err\<close> is the value below. \<open>err\<close> tells whether the caller
  passed a non-NULL \<open>err\<close>; \<open>TYPE'\<close> is the macro's \<open>TYPE\<close>; \<open>msg\<close> is \<open>fmt\<close> with
  its arguments filled in.
\<close>

definition DEC_ERR :: "(int \<Rightarrow> string) \<Rightarrow> bool \<Rightarrow> int \<Rightarrow> int \<Rightarrow> string \<Rightarrow> osmo_gad_err option" where
  "DEC_ERR unk err RC TYPE' msg =
     (if err then
        Some \<lparr>rc = RC, err_type = TYPE',
              logmsg = ''Error decoding GAD'' @ (if 0 \<le> TYPE' then '' '' else [])
                       @ (if 0 \<le> TYPE' then osmo_gad_type_name unk TYPE' else [])
                       @ '': '' @ msg\<rparr>
      else None)"

section \<open>Variant codec\<close>

text \<open>
  \<open>osmo_gad_enc_ell_point_unc_circle\<close>: returns \<open>msg->tail - old_tail\<close> and the
  extended buffer.
\<close>

definition osmo_gad_enc_ell_point_unc_circle :: "msgb \<Rightarrow> gad_ell_point_unc_circle \<Rightarrow> int \<times> msgb" where
  "osmo_gad_enc_ell_point_unc_circle msg v =
     (let old_tail = length msg;
          msg = msgb_put_u8 msg (word_of_int (push_bit 4 GAD_TYPE_ELL_POINT_UNC_CIRCLE));
          msg = put_u24be msg (osmo_gad_enc_lat (lat v));
          msg = put_u24be msg (osmo_gad_enc_lon (lon v));
          msg = msgb_put_u8 msg (osmo_gad_enc_unc (unc v))
      in (int (length msg) - int old_tail, msg))"

text \<open>
  \<open>osmo_gad_dec_ell_point_unc_circle\<close>: returns the return code, the struct \<open>*v\<close> as
  the function leaves it, and what it stored in \<open>*err\<close>. \<open>len\<close> is the length of
  \<open>data\<close>.
\<close>

definition osmo_gad_dec_ell_point_unc_circle ::
    "(int \<Rightarrow> string) \<Rightarrow> bool \<Rightarrow> gad_ell_point_unc_circle \<Rightarrow> u8 list
      \<Rightarrow> int \<times> gad_ell_point_unc_circle \<times> osmo_gad_err option" where
  "osmo_gad_dec_ell_point_unc_circle unk err v data =
     (let len = length data in
      if len \<noteq> 8 then
        (- EINVAL, v,
         DEC_ERR unk err (- EINVAL) (- 1) (''Expecting length of 8 bytes, got '' @ fmt_u len))
      else
        let val = osmo_load32be_ext_2 (drop 1 data) 3;
            v = v\<lparr>lat := osmo_gad_dec_lat val\<rparr>;
            val = osmo_load32be_ext_2 (drop 4 data) 3;
            v = v\<lparr>lon := osmo_gad_dec_lon val\<rparr>;
            unc = data ! 7
        in if unc AND 0x80 \<noteq> 0 then
             (- EINVAL, v,
              DEC_ERR unk err (- EINVAL) (- 1)
                (''Bit 8 of Uncertainty code should be zero (unc = 0x'' @ fmt_x (unat unc)
                 @ '')''))
           else (0, v\<lparr>unc := osmo_gad_dec_unc unc\<rparr>, None))"

section \<open>Dispatcher\<close>

text \<open>\<open>int osmo_gad_enc(struct msgb *msg, const struct gad_pdu *gad)\<close>.\<close>

definition osmo_gad_enc :: "msgb \<Rightarrow> gad_pdu \<Rightarrow> int \<times> msgb" where
  "osmo_gad_enc msg gad =
     (if type gad = GAD_TYPE_ELL_POINT_UNC_CIRCLE then
        osmo_gad_enc_ell_point_unc_circle msg (ell_point_unc_circle gad)
      else (- ENOTSUP, msg))"

text \<open>
  \<open>int osmo_gad_dec(struct gad_pdu *gad, struct osmo_gad_err **err, void *err_ctx,
  const uint8_t *data, uint8_t len)\<close>. The argument \<open>gad\<close> is the caller's PDU as it is
  before the call; the result is the return code, the PDU after the call and \<open>*err\<close>.
  \<open>len\<close> is the length of \<open>data\<close> (a \<open>uint8_t\<close>, so at most 255).
\<close>

definition osmo_gad_dec ::
    "(int \<Rightarrow> string) \<Rightarrow> bool \<Rightarrow> gad_pdu \<Rightarrow> u8 list \<Rightarrow> int \<times> gad_pdu \<times> osmo_gad_err option" where
  "osmo_gad_dec unk err gad data =
     (let len = length data in
      if len < 1 then (- EINVAL, gad, DEC_ERR unk err (- EINVAL) (- 1) ''zero length'')
      else
        let gad = gad_pdu_zero gad;
            gad = gad\<lparr>type := uint (drop_bit 4 (data ! 0))\<rparr>
        in if type gad = GAD_TYPE_ELL_POINT_UNC_CIRCLE then
             (case osmo_gad_dec_ell_point_unc_circle unk err (ell_point_unc_circle gad) data of
                (rc', v, e) \<Rightarrow>
                  (rc', gad\<lparr>ell_point_unc_circle := v\<rparr>,
                   map_option (\<lambda>e. e\<lparr>err_type := type gad\<rparr>) e))
           else
             (- ENOTSUP, gad, DEC_ERR unk err (- ENOTSUP) (type gad) ''unsupported GAD type''))"

section \<open>String formatter\<close>

text \<open>
  The text that \<open>osmo_gad_to_str_buf\<close> sends through \<open>OSMO_STRBUF_PRINTF\<close> and
  \<open>OSMO_STRBUF_APPEND\<close>, in order. \<open>micros\<close> stands for the text produced by
  \<open>osmo_micros_to_float_str_buf\<close> (utils.c, not among the sources). The case
  \<open>GAD_TYPE_ELL_POINT\<close> has no \<open>break\<close>, so control runs on into the case
  \<open>GAD_TYPE_ELL_POINT_UNC_CIRCLE\<close>.
\<close>

definition osmo_gad_to_str ::
    "(int \<Rightarrow> string) \<Rightarrow> (i32 \<Rightarrow> string) \<Rightarrow> gad_pdu option \<Rightarrow> string" where
  "osmo_gad_to_str unk micros gad_opt =
     (case gad_opt of
        None \<Rightarrow> ''null''
      | Some gad \<Rightarrow>
          let point = ''lat='' @ micros (lat (ell_point gad))
                      @ '',lon='' @ micros (lon (ell_point gad));
              circle = ''lat='' @ micros (lat (ell_point_unc_circle gad))
                       @ '',lon='' @ micros (lon (ell_point_unc_circle gad))
                       @ '',unc='' @ fmt_u (unat (unc (ell_point_unc_circle gad))) @ ''mm''
          in osmo_gad_type_name unk (type gad) @ ''{''
             @ (if type gad = GAD_TYPE_ELL_POINT then point @ circle
                else if type gad = GAD_TYPE_ELL_POINT_UNC_CIRCLE then circle
                else ''to-str-not-implemented'')
             @ ''}'')"

text \<open>
  \<open>int osmo_gad_to_str_buf(char *buf, size_t buflen, const struct gad_pdu *gad)\<close>: the
  buffer receives as much of the text as fits before the terminating NUL, and the return
  value is \<open>sb.chars_needed\<close>, the length of the whole text, like snprintf().
\<close>

definition osmo_gad_to_str_buf ::
    "(int \<Rightarrow> string) \<Rightarrow> (i32 \<Rightarrow> string) \<Rightarrow> nat \<Rightarrow> gad_pdu option \<Rightarrow> string \<times> int" where
  "osmo_gad_to_str_buf unk micros buflen gad_opt =
     (let s = osmo_gad_to_str unk micros gad_opt in (take (buflen - 1) s, int (length s)))"

section \<open>Arithmetic of the 64-bit intermediate values\<close>

lemma requant_arith:
  fixes m K P :: int
  assumes "0 < P" "P \<le> K"
  shows "((m * K div P) * P + (P - 1)) div K = m"
proof -
  define r where "r = m * K mod P"
  have r: "0 \<le> r" "r < P" using assms unfolding r_def by simp_all
  have "(m * K div P) * P = m * K - r"
    unfolding r_def by (simp add: minus_mod_eq_div_mult)
  then have e: "(m * K div P) * P + (P - 1) = (P - 1 - r) + m * K" by simp
  have b: "0 \<le> P - 1 - r" "P - 1 - r < K" using r assms by simp_all
  have "((P - 1 - r) + m * K) div K = (P - 1 - r) div K + m"
    using assms by simp
  also have "(P - 1 - r) div K = 0"
    using b by (rule div_pos_pos_trivial)
  finally have "((P - 1 - r) + m * K) div K = m" by simp
  then show ?thesis by (simp only: e)
qed

lemma sint32_bounds: "- 2147483648 \<le> sint (w :: 32 word)" "sint (w :: 32 word) < 2147483648"
  using sint_ge [of w] sint_lt [of w] by simp_all

lemma ucast_64_32: "(ucast (word_of_int k :: 64 word) :: 32 word) = word_of_int k"
  by (rule bit_word_eqI) (simp add: bit_simps)

lemma sint64_of_int: "- 9223372036854775808 \<le> k \<Longrightarrow> k < 9223372036854775808 \<Longrightarrow> sint (word_of_int k :: 64 word) = k"
  by (simp add: sint_sbintrunc' signed_take_bit_int_eq_self)

lemma sint32_of_int: "- 2147483648 \<le> k \<Longrightarrow> k < 2147483648 \<Longrightarrow> sint (word_of_int k :: 32 word) = k"
  by (simp add: sint_sbintrunc' signed_take_bit_int_eq_self)

lemma and_mask23_64: "(word_of_int k :: 64 word) AND 0x7fffff = word_of_int (k mod 8388608)"
proof -
  have "(0x7fffff :: 64 word) = mask 23" by (simp add: mask_eq_exp_minus_1)
  then have "(word_of_int k :: 64 word) AND 0x7fffff = take_bit 23 (word_of_int k)"
    by (simp add: take_bit_eq_mask)
  also have "\<dots> = word_of_int (take_bit 23 k)"
    by (rule bit_word_eqI) (auto simp add: bit_simps)
  finally show ?thesis by (simp add: take_bit_eq_mod)
qed

lemma sdiv_int_nonneg: "0 \<le> a \<Longrightarrow> 0 < b \<Longrightarrow> (a::int) sdiv b = a div b"
  by (cases "a = 0") (simp_all add: signed_divide_int_def)

lemma sdiv_int_neg: "a \<le> 0 \<Longrightarrow> 0 < b \<Longrightarrow> (a::int) sdiv b = - ((- a) div b)"
  by (cases "a = 0") (simp_all add: signed_divide_int_def)

lemma sdiv64_of_int:
  assumes "- 9223372036854775808 \<le> a" "a < 9223372036854775808" "0 < b" "b < 9223372036854775808"
  shows "sdiv64 (word_of_int a) (word_of_int b) = word_of_int (a sdiv b)"
  using assms by (simp add: sdiv64_def sint64_of_int)


lemma or_sign_64:
  assumes "0 \<le> k" "k < 8388608"
  shows "(0x800000 :: 64 word) OR word_of_int k = word_of_int (8388608 + k)"
proof -
  have "(0x800000 :: 64 word) AND word_of_int k = 0"
  proof (rule bit_word_eqI)
    fix n assume "n < LENGTH(64)"
    have "\<not> (bit (0x800000 :: 64 word) n \<and> bit k n)"
    proof
      assume a: "bit (0x800000 :: 64 word) n \<and> bit k n"
      have "(0x800000 :: 64 word) = 2 ^ 23" by simp
      with a have "n = 23" by (auto simp only: bit_exp_iff)
      with a have "bit k 23" by simp
      then have "2 ^ 23 \<le> k" using assms(1)
        by (metis bit_take_bit_iff linorder_not_less not_less_iff_gr_or_eq take_bit_int_eq_self) 
      with assms show False by simp
    qed
    then show "bit ((0x800000 :: 64 word) AND word_of_int k) n = bit (0 :: 64 word) n"
      by (auto simp add: bit_simps)
  qed
  then have "(0x800000 :: 64 word) OR word_of_int k = 0x800000 + word_of_int k"
    by (simp add: disjunctive_add_eq_or)
  then show ?thesis by simp
qed

lemma ucast_64_32_sign:
  "(ucast (8388608 + word_of_int k :: 64 word) :: 32 word) = 8388608 + word_of_int k"
  using ucast_64_32 [of "8388608 + k"] by simp

lemma enc_lat_nonneg:
  assumes "0 \<le> sint l"
  shows "osmo_gad_enc_lat l = word_of_int (((sint l * 8388608 + 8388607) div 90000000) mod 8388608)"
proof -
  define s where "s = sint l"
  have sl: "sint l = s" by (simp add: s_def)
  have x1: "(scast l :: 64 word) = word_of_int s" unfolding s_def by (rule scast_eq)
  have b: "0 \<le> s" "s < 2147483648" using assms sint32_bounds [of l] by (simp_all add: s_def)
  have q: "sdiv64 (word_of_int (s * 8388608 + 8388607)) (word_of_int 90000000)
      = word_of_int ((s * 8388608 + 8388607) div 90000000)"
    using b by (subst sdiv64_of_int) (simp_all add: sdiv_int_nonneg)
  have "osmo_gad_enc_lat l = word_of_int (((s * 8388608 + 8388607) div 90000000) mod 8388608)"
    using b q
    by (simp add: osmo_gad_enc_lat_def Let_def sl x1 push_bit_eq_mult and_mask23_64 ucast_64_32)
  then show ?thesis by (simp only: sl)
qed

lemma enc_lat_neg:
  assumes "sint l < 0" "- 2147483648 < sint l"
  shows "osmo_gad_enc_lat l = word_of_int (8388608 + ((- sint l * 8388608 + 8388607) div 90000000) mod 8388608)"
proof -
  define s where "s = - sint l"
  have sl: "sint l = - s" by (simp add: s_def)
  have b: "0 < s" "s < 2147483648" using assms by (simp_all add: s_def)
  have n: "sint (- l) = s"
    using assms by (simp add: sint_word_minus signed_take_bit_int_eq_self s_def)
  have x1: "(scast (- l) :: 64 word) = word_of_int s" unfolding n [symmetric] by (rule scast_eq)
  have q: "sdiv64 (word_of_int (s * 8388608 + 8388607)) (word_of_int 90000000)
      = word_of_int ((s * 8388608 + 8388607) div 90000000)"
    using b by (subst sdiv64_of_int) (simp_all add: sdiv_int_nonneg)
  have sg: "(scast (0x800000 :: 32 word) :: 64 word) = 0x800000" by simp
  have "osmo_gad_enc_lat l = word_of_int (8388608 + ((s * 8388608 + 8388607) div 90000000) mod 8388608)"
    using b q 
    by (simp add: osmo_gad_enc_lat_def Let_def sl x1 sg push_bit_eq_mult and_mask23_64 ucast_64_32_sign or_sign_64)
  then show ?thesis by (simp only: s_def)
qed


lemma bit23_int:
  fixes k :: int
  assumes "0 \<le> k" "k < 16777216"
  shows "bit k 23 \<longleftrightarrow> 8388608 \<le> k"
proof -
  have "k div 8388608 = 0 \<or> k div 8388608 = 1" using assms by auto
  moreover have "k div 8388608 = 0 \<longleftrightarrow> k < 8388608" using assms by auto
  ultimately show ?thesis by (auto simp add: bit_iff_odd)
qed

lemma and_sign_32:
  fixes c :: "32 word"
  assumes "uint c < 16777216"
  shows "c AND 0x800000 \<noteq> 0 \<longleftrightarrow> 8388608 \<le> uint c"
proof -
  have "(0x800000 :: 32 word) = 2 ^ 23" by simp
  then have "c AND 0x800000 = 0 \<longleftrightarrow> \<not> bit c 23"
    by (simp only: and_exp_eq_0_iff_not_bit)
  also have "bit c 23 \<longleftrightarrow> bit (uint c) 23" by (simp add: bit_uint_iff)
  also have "\<dots> \<longleftrightarrow> 8388608 \<le> uint c" using assms by (intro bit23_int) simp_all
  finally show ?thesis by simp
qed

lemma and_mask23_32: "(c :: 32 word) AND 0x7fffff = word_of_int (uint c mod 8388608)"
proof -
  have "(0x7fffff :: 32 word) = mask 23" by (simp add: mask_eq_exp_minus_1)
  then have "c AND 0x7fffff = take_bit 23 c"
    by (simp add: take_bit_eq_mask)
  also have "\<dots> = word_of_int (take_bit 23 (uint c))"
    by (rule bit_word_eqI) (auto simp add: bit_simps)
  finally show ?thesis by (simp add: take_bit_eq_mod)
qed

lemma signed_drop_bit23_64:
  assumes "- 9223372036854775808 \<le> k" "k < 9223372036854775808"
  shows "signed_drop_bit 23 (word_of_int k :: 64 word) = word_of_int (k div 8388608)"
proof -
  have "sint (signed_drop_bit 23 (word_of_int k :: 64 word)) = k div 8388608"
    using assms by (simp add: sint_signed_drop_bit_eq sint64_of_int drop_bit_eq_div)
  then have "word_of_int (sint (signed_drop_bit 23 (word_of_int k :: 64 word))) = (word_of_int (k div 8388608) :: 64 word)"
    by (rule arg_cong)
  then show ?thesis by simp
qed

lemma scast_small_32_64:
  assumes "0 \<le> k" "k < 2147483648"
  shows "(scast (word_of_int k :: 32 word) :: 64 word) = word_of_int k"
  using assms by (simp only: scast_eq sint32_of_int)


lemma ucast_64_32_neg:
  "(ucast (- word_of_int k :: 64 word) :: 32 word) = word_of_int (- k)"
  using ucast_64_32 [of "- k"] by simp

lemma dec_lat_low:
  assumes "uint c < 8388608"
  shows "osmo_gad_dec_lat c = word_of_int (uint c * 90000000 div 8388608)"
proof -
  define u where "u = uint c"
  have u: "0 \<le> u" "u < 8388608" using assms by (simp_all add: u_def)
  have c: "c = word_of_int u" by (simp add: u_def)
  have nn: "\<not> (c AND 0x800000 \<noteq> 0)"
    using assms and_sign_32 [of c] by simp
  have x1: "(scast c :: 64 word) = word_of_int u"
    unfolding c using u by (intro scast_small_32_64) simp_all
  have "osmo_gad_dec_lat c = ucast (signed_drop_bit 23 (scast c * 90000000 :: 64 word))"
    using nn by (simp add: osmo_gad_dec_lat_def Let_def)
  also have "(scast c * 90000000 :: 64 word) = word_of_int (u * 90000000)"
    by (simp add: x1)
  also have "signed_drop_bit 23 (word_of_int (u * 90000000) :: 64 word)
      = word_of_int (u * 90000000 div 8388608)"
    using u by (intro signed_drop_bit23_64) simp_all
  finally show ?thesis by (simp only: ucast_64_32 u_def)
qed

lemma dec_lat_high:
  assumes "8388608 \<le> uint c" "uint c < 16777216"
  shows "osmo_gad_dec_lat c = word_of_int (- ((uint c - 8388608) * 90000000 div 8388608))"
proof -
  define m where "m = uint c - 8388608"
  have m: "0 \<le> m" "m < 8388608" using assms by (simp_all add: m_def)
  have "uint c mod 8388608 = (m + 8388608) mod 8388608" by (simp add: m_def)
  also have "\<dots> = m" using m by simp
  finally have lat: "c AND 0x7fffff = word_of_int m" by (simp only: and_mask23_32)
  have neg: "c AND 0x800000 \<noteq> 0"
    using assms and_sign_32 [of c] by simp
  have x1: "(scast (c AND 0x7fffff) :: 64 word) = word_of_int m"
    unfolding lat using m by (intro scast_small_32_64) simp_all
  have "osmo_gad_dec_lat c
      = ucast (- signed_drop_bit 23 (scast (c AND 0x7fffff) * 90000000 :: 64 word))"
    using neg by (simp add: osmo_gad_dec_lat_def Let_def)
  also have "(scast (c AND 0x7fffff) * 90000000 :: 64 word) = word_of_int (m * 90000000)"
    by (simp add: x1)
  also have "signed_drop_bit 23 (word_of_int (m * 90000000) :: 64 word)
      = word_of_int (m * 90000000 div 8388608)"
    using m by (intro signed_drop_bit23_64) simp_all
  finally show ?thesis by (simp only: ucast_64_32_neg m_def)
qed

lemma quant_bounds:
  fixes m :: int
  assumes "0 \<le> m" "m < 8388608"
  shows "0 \<le> m * 90000000 div 8388608" "m * 90000000 div 8388608 < 90000000"
proof -
  show "0 \<le> m * 90000000 div 8388608" using assms by simp
  have "m * 90000000 < 90000000 * 8388608" using assms by simp
  then show "m * 90000000 div 8388608 < 90000000"
    by (simp only: div_less_iff_less_mult zero_less_numeral) 
qed

lemma quant_pos:
  fixes m :: int
  assumes "0 < m"
  shows "0 < m * 90000000 div 8388608"
proof -
  have "(8388608 :: int) \<le> m * 90000000" using assms by simp
  then show ?thesis
    using pos_imp_zdiv_pos_iff [of 8388608 "m * 90000000"] by simp
qed


lemma requant_lat:
  fixes m :: int
  assumes "0 \<le> m" "m < 8388608"
  shows "((m * 90000000 div 8388608) * 8388608 + 8388607) div 90000000 mod 8388608 = m"
proof -
  have "((m * 90000000 div 8388608) * 8388608 + (8388608 - 1)) div 90000000 = m"
    by (rule requant_arith) simp_all
  then have "((m * 90000000 div 8388608) * 8388608 + 8388607) div 90000000 = m"
    by simp
  then show ?thesis using assms by simp
qed

section \<open>Latitude round trip\<close>

text \<open>
  C1. For every 24-bit latitude code \<open>lat_code\<close> in \<open>[0, 0xFFFFFF]\<close>,
  encoding the decoded latitude gives back \<open>lat_code\<close>, except for \<open>0x800000\<close>
  (sign bit set, magnitude zero), which decodes to 0 and encodes to the all-zero code 0.
\<close>

theorem lat_dec_enc_roundtrip:
  assumes "lat_code \<le> 0xFFFFFF"
  shows "osmo_gad_enc_lat (osmo_gad_dec_lat lat_code) = (if lat_code = 0x800000 then 0 else lat_code)"
proof -
  define u where "u = uint lat_code"
  have c: "lat_code = word_of_int u" by (simp add: u_def)
  have u: "0 \<le> u" "u < 16777216"
    using assms by (simp_all add: u_def word_le_def)
  show ?thesis
  proof (cases "u < 8388608")
    case True
    define d where "d = u * 90000000 div 8388608"
    have d: "0 \<le> d" "d < 90000000" using quant_bounds [of u] u True by (simp_all add: d_def)
    have dec: "osmo_gad_dec_lat lat_code = word_of_int d"
      using True dec_lat_low [of lat_code] by (simp add: u_def d_def)
    have sd: "sint (word_of_int d :: 32 word) = d"
      using d by (intro sint32_of_int) simp_all
    have "osmo_gad_enc_lat (word_of_int d) = word_of_int ((d * 8388608 + 8388607) div 90000000 mod 8388608)"
      using enc_lat_nonneg [of "word_of_int d"] d by (simp only: sd)
    also have "(d * 8388608 + 8388607) div 90000000 mod 8388608 = u"
      unfolding d_def using u True by (intro requant_lat) simp_all
    finally have "osmo_gad_enc_lat (osmo_gad_dec_lat lat_code) = lat_code"
      unfolding dec by (simp only: c [symmetric])
    moreover have "lat_code \<noteq> 0x800000"
    proof
      assume "lat_code = 0x800000"
      then have "u = 8388608" by (simp add: u_def)
      with True show False by simp
    qed
    ultimately show ?thesis by simp
  next
    case False
    define m where "m = u - 8388608"
    have m: "0 \<le> m" "m < 8388608" using u False by (simp_all add: m_def)
    define d where "d = m * 90000000 div 8388608"
    have d: "0 \<le> d" "d < 90000000" using quant_bounds [of m] m by (simp_all add: d_def)
    have dec: "osmo_gad_dec_lat lat_code = word_of_int (- d)"
      using False u dec_lat_high [of lat_code] by (simp add: u_def d_def m_def)
    show ?thesis
    proof (cases "m = 0")
      case True
      then have "u = 8388608" by (simp add: m_def)
      then have "lat_code = 0x800000" by (simp add: c)
      moreover have "d = 0" using True by (simp add: d_def)
      moreover have "osmo_gad_enc_lat 0 = 0"
        using enc_lat_nonneg [of 0] by simp
      ultimately show ?thesis using dec by simp
    next
      case nz: False
      then have "0 < m" using m by simp
      then have dp: "0 < d" unfolding d_def by (rule quant_pos)
      have sd: "sint (word_of_int (- d) :: 32 word) = - d"
        using d by (intro sint32_of_int) simp_all
      have "osmo_gad_enc_lat (word_of_int (- d))
          = word_of_int (8388608 + (- (- d) * 8388608 + 8388607) div 90000000 mod 8388608)"
        using enc_lat_neg [of "word_of_int (- d)"] d dp by (simp only: sd)
      also have "- (- d) = d" by simp
      also have "(d * 8388608 + 8388607) div 90000000 mod 8388608 = m"
        unfolding d_def using m by (intro requant_lat) simp_all
      also have "8388608 + m = u" by (simp add: m_def)
      finally have "osmo_gad_enc_lat (osmo_gad_dec_lat lat_code) = lat_code"
        unfolding dec by (simp only: c [symmetric])
      moreover have "lat_code \<noteq> 0x800000"
      proof
        assume "lat_code = 0x800000"
        then have "u = 8388608" by (simp add: u_def)
        with nz show False by (simp add: m_def)
      qed
      ultimately show ?thesis by simp
    qed
  qed
qed

theorem lat_dec_enc_roundtrip_witness:
  "(0x123456 :: 32 word) \<le> 0xFFFFFF \<and> osmo_gad_enc_lat (osmo_gad_dec_lat 0x123456) = 0x123456
   \<and> (0x800000 :: 32 word) \<le> 0xFFFFFF \<and> osmo_gad_enc_lat (osmo_gad_dec_lat 0x800000) = 0"
  using lat_dec_enc_roundtrip [of "0x123456"] lat_dec_enc_roundtrip [of "0x800000"] by simp

section \<open>Longitude round trip\<close>

lemma and_mask24_64: "(word_of_int k :: 64 word) AND 0xffffff = word_of_int (k mod 16777216)"
proof -
  have "(0xffffff :: 64 word) = mask 24" by (simp add: mask_eq_exp_minus_1)
  then have "(word_of_int k :: 64 word) AND 0xffffff = take_bit 24 (word_of_int k)"
    by (simp add: take_bit_eq_mask)
  also have "\<dots> = word_of_int (take_bit 24 k)"
    by (rule bit_word_eqI) (auto simp add: bit_simps)
  finally show ?thesis by (simp add: take_bit_eq_mod)
qed

lemma and_mask24_64_neg:
  "(- word_of_int k :: 64 word) AND 0xffffff = word_of_int ((- k) mod 16777216)"
  using and_mask24_64 [of "- k"] by simp

lemma enc_lon_nonneg:
  assumes "0 \<le> sint l"
  shows "osmo_gad_enc_lon l = word_of_int (((sint l * 16777216 + 16777215) div 360000000) mod 16777216)"
proof -
  define s where "s = sint l"
  have sl: "sint l = s" by (simp add: s_def)
  have x1: "(scast l :: 64 word) = word_of_int s" unfolding s_def by (rule scast_eq)
  have b: "0 \<le> s" "s < 2147483648" using assms sint32_bounds [of l] by (simp_all add: s_def)
  have q: "sdiv64 (word_of_int (s * 16777216 + 16777215)) (word_of_int 360000000)
      = word_of_int ((s * 16777216 + 16777215) div 360000000)"
    using b by (subst sdiv64_of_int) (simp_all add: sdiv_int_nonneg)
  have "osmo_gad_enc_lon l = word_of_int (((s * 16777216 + 16777215) div 360000000) mod 16777216)"
    using b q
    by (simp add: osmo_gad_enc_lon_def Let_def sl x1 and_mask24_64 ucast_64_32)
  then show ?thesis by (simp only: sl)
qed

lemma enc_lon_neg:
  assumes "sint l < 0"
  shows "osmo_gad_enc_lon l = word_of_int ((- ((- sint l * 16777216 + 16777215) div 360000000)) mod 16777216)"
proof -
  define s where "s = - sint l"
  have sl: "sint l = - s" by (simp add: s_def)
  have b: "0 < s" "s \<le> 2147483648" using assms sint32_bounds [of l] by (simp_all add: s_def)
  have x1: "(scast l :: 64 word) = word_of_int (- s)" unfolding s_def by (simp add: scast_eq del: of_int_sint)
  define a where "a = s * 16777216 + 16777215"
  have a: "0 < a" "a < 9223372036854775808" using b by (simp_all add: a_def)
  have "(- a) sdiv 360000000 = - (a div 360000000)"
    using a sdiv_int_neg [of "- a" 360000000] by simp
  moreover have "sdiv64 (word_of_int (- a)) (word_of_int 360000000)
      = word_of_int ((- a) sdiv 360000000)"
    using a by (intro sdiv64_of_int) simp_all
  ultimately have q: "sdiv64 (word_of_int (- a)) (word_of_int 360000000)
      = word_of_int (- (a div 360000000))" by simp
  have "osmo_gad_enc_lon l = word_of_int ((- (a div 360000000)) mod 16777216)"
    using b q
    by (simp add: osmo_gad_enc_lon_def Let_def sl x1 ucast_64_32 a_def and_mask24_64_neg)
  then show ?thesis by (simp only: s_def a_def)
qed


lemma or_ext_32:
  fixes c :: "32 word"
  assumes "uint c < 16777216"
  shows "c OR 0xff000000 = word_of_int (uint c - 16777216)"
proof -
  have "take_bit 24 c = word_of_int (take_bit 24 (uint c))"
    by (rule bit_word_eqI) (auto simp add: bit_simps)
  also have "take_bit 24 (uint c) = uint c"
    using assms by (intro take_bit_int_eq_self) simp_all
  finally have t: "take_bit 24 c = c" by simp
  have "c AND 0xff000000 = 0"
  proof (rule bit_word_eqI)
    fix n assume "n < LENGTH(32)"
    have e: "(0xff000000 :: 32 word) = NOT (mask 24)" by (simp add: mask_eq_exp_minus_1)
    have "bit (take_bit 24 c AND NOT (mask 24)) n = bit (0 :: 32 word) n"
      by (auto simp only: bit_and_iff bit_not_iff bit_mask_iff bit_take_bit_iff bit_0_eq)
    then have "bit (take_bit 24 c AND 0xff000000) n = bit (0 :: 32 word) n"
      by (simp only: e)
    then show "bit (c AND 0xff000000) n = bit (0 :: 32 word) n" by (simp only: t)
  qed
  then have "c OR 0xff000000 = c + 0xff000000"
    by (simp add: disjunctive_add_eq_or)
  also have "\<dots> = word_of_int (uint c) + word_of_int (- 16777216)" by simp
  finally show ?thesis by simp
qed


lemma dec_lon_low:
  assumes "uint c < 8388608"
  shows "osmo_gad_dec_lon c = word_of_int (uint c * 360000000 div 16777216)"
proof -
  define u where "u = uint c"
  have u: "0 \<le> u" "u < 8388608" using assms by (simp_all add: u_def)
  have c: "c = word_of_int u" by (simp add: u_def)
  have nn: "\<not> (c AND 0x800000 \<noteq> 0)"
    using assms and_sign_32 [of c] by simp
  have x1: "(scast c :: 64 word) = word_of_int u"
    unfolding c using u by (intro scast_small_32_64) simp_all
  have "osmo_gad_dec_lon c = ucast (sdiv64 (scast c * 360000000 :: 64 word) 16777216)"
    using nn by (simp add: osmo_gad_dec_lon_def Let_def)
  also have "(scast c * 360000000 :: 64 word) = word_of_int (u * 360000000)"
    by (simp add: x1)
  also have "(16777216 :: 64 word) = word_of_int 16777216" by simp
  also have "sdiv64 (word_of_int (u * 360000000)) (word_of_int 16777216)
      = word_of_int ((u * 360000000) sdiv 16777216)"
    using u by (intro sdiv64_of_int) simp_all
  also have "(u * 360000000) sdiv 16777216 = u * 360000000 div 16777216"
    using u by (intro sdiv_int_nonneg) simp_all
  finally show ?thesis by (simp only: ucast_64_32 u_def)
qed

lemma dec_lon_high:
  assumes "8388608 \<le> uint c" "uint c < 16777216"
  shows "osmo_gad_dec_lon c = word_of_int (- ((16777216 - uint c) * 360000000 div 16777216))"
proof -
  define m where "m = 16777216 - uint c"
  have m: "0 < m" "m \<le> 8388608" using assms by (simp_all add: m_def)
  have neg: "c AND 0x800000 \<noteq> 0"
    using assms and_sign_32 [of c] by simp
  have "c OR 0xff000000 = word_of_int (uint c - 16777216)"
    using assms by (intro or_ext_32) simp
  also have "uint c - 16777216 = - m" by (simp add: m_def)
  finally have ext: "c OR 0xff000000 = word_of_int (- m)" .
  have "sint (word_of_int (- m) :: 32 word) = - m"
    using m by (intro sint32_of_int) simp_all
  then have x1: "(scast (c OR 0xff000000) :: 64 word) = word_of_int (- m)"
    by (simp only: ext scast_eq)
  have "osmo_gad_dec_lon c
      = ucast (sdiv64 (scast (c OR 0xff000000) * 360000000 :: 64 word) 16777216)"
    using neg by (simp add: osmo_gad_dec_lon_def Let_def)
  also have "(scast (c OR 0xff000000) * 360000000 :: 64 word) = word_of_int (- (m * 360000000))"
    by (simp add: x1)
  also have "(16777216 :: 64 word) = word_of_int 16777216" by simp
  also have "sdiv64 (word_of_int (- (m * 360000000))) (word_of_int 16777216)
      = word_of_int ((- (m * 360000000)) sdiv 16777216)"
    using m by (intro sdiv64_of_int) simp_all
  also have "(- (m * 360000000)) sdiv 16777216 = - (m * 360000000 div 16777216)"
    using m sdiv_int_neg [of "- (m * 360000000)" 16777216] by simp
  finally show ?thesis by (simp only: ucast_64_32 m_def)
qed


lemma quant_lon_bounds:
  fixes m :: int
  assumes "0 \<le> m" "m \<le> 8388608"
  shows "0 \<le> m * 360000000 div 16777216" "m * 360000000 div 16777216 < 2147483648"
proof -
  show "0 \<le> m * 360000000 div 16777216" using assms by simp
  have "m * 360000000 < 2147483648 * 16777216" using assms by simp
  then show "m * 360000000 div 16777216 < 2147483648"
    by (simp only: div_less_iff_less_mult zero_less_numeral) 
qed

lemma quant_lon_pos:
  fixes m :: int
  assumes "0 < m"
  shows "0 < m * 360000000 div 16777216"
proof -
  have "(16777216 :: int) \<le> m * 360000000" using assms by simp
  then show ?thesis
    using pos_imp_zdiv_pos_iff [of 16777216 "m * 360000000"] by simp
qed

lemma requant_lon:
  fixes m :: int
  shows "((m * 360000000 div 16777216) * 16777216 + 16777215) div 360000000 = m"
proof -
  have "((m * 360000000 div 16777216) * 16777216 + (16777216 - 1)) div 360000000 = m"
    by (rule requant_arith) simp_all
  then show ?thesis by simp
qed

text \<open>
  C2. For every 24-bit longitude code \<open>lon_code\<close> in \<open>[0, 0xFFFFFF]\<close>, encoding the
  decoded longitude gives back \<open>lon_code\<close>; no code is special.
\<close>

theorem lon_dec_enc_roundtrip:
  assumes "lon_code \<le> 0xFFFFFF"
  shows "osmo_gad_enc_lon (osmo_gad_dec_lon lon_code) = lon_code"
proof -
  define u where "u = uint lon_code"
  have c: "lon_code = word_of_int u" by (simp add: u_def)
  have u: "0 \<le> u" "u < 16777216"
    using assms by (simp_all add: u_def word_le_def)
  show ?thesis
  proof (cases "u < 8388608")
    case True
    define d where "d = u * 360000000 div 16777216"
    have d: "0 \<le> d" "d < 2147483648"
      using quant_lon_bounds [of u] u True by (simp_all add: d_def)
    have dec: "osmo_gad_dec_lon lon_code = word_of_int d"
      using True dec_lon_low [of lon_code] by (simp add: u_def d_def)
    have sd: "sint (word_of_int d :: 32 word) = d"
      using d by (intro sint32_of_int) simp_all
    have "osmo_gad_enc_lon (word_of_int d)
        = word_of_int ((d * 16777216 + 16777215) div 360000000 mod 16777216)"
      using enc_lon_nonneg [of "word_of_int d"] d by (simp only: sd)
    also have "(d * 16777216 + 16777215) div 360000000 = u"
      unfolding d_def by (rule requant_lon)
    also have "u mod 16777216 = u" using u by simp
    finally show ?thesis
      unfolding dec by (simp only: c [symmetric])
  next
    case False
    define m where "m = 16777216 - u"
    have m: "0 < m" "m \<le> 8388608" using u False by (simp_all add: m_def)
    define d where "d = m * 360000000 div 16777216"
    have d: "0 \<le> d" "d < 2147483648"
      using quant_lon_bounds [of m] m by (simp_all add: d_def)
    have dp: "0 < d" unfolding d_def using m(1) by (rule quant_lon_pos)
    have dec: "osmo_gad_dec_lon lon_code = word_of_int (- d)"
      using False u dec_lon_high [of lon_code] by (simp add: u_def d_def m_def)
    have sd: "sint (word_of_int (- d) :: 32 word) = - d"
      using d by (intro sint32_of_int) simp_all
    have "osmo_gad_enc_lon (word_of_int (- d))
        = word_of_int ((- ((- (- d) * 16777216 + 16777215) div 360000000)) mod 16777216)"
      using enc_lon_neg [of "word_of_int (- d)"] dp by (simp only: sd)
    also have "- (- d) = d" by simp
    also have "(d * 16777216 + 16777215) div 360000000 = m"
      unfolding d_def by (rule requant_lon)
    also have "(- m) mod 16777216 = u"
    proof -
      have "(- m) mod 16777216 = (u + (- 1) * 16777216) mod 16777216" by (simp add: m_def)
      also have "\<dots> = u mod 16777216" by (rule mod_mult_self1)
      finally show ?thesis using u by simp
    qed
    finally show ?thesis
      unfolding dec by (simp only: c [symmetric])
  qed
qed

theorem lon_dec_enc_roundtrip_witness:
  "(0x800000 :: 32 word) \<le> 0xFFFFFF \<and> osmo_gad_enc_lon (osmo_gad_dec_lon 0x800000) = 0x800000"
  using lon_dec_enc_roundtrip [of "0x800000"] by simp

section \<open>Uncertainty table\<close>

lemma table_length: "length table_uncertainty_1e3 = 128"
  by (simp add: table_uncertainty_1e3_def)

lemma table_first: "table_uncertainty_1e3 ! 0 = 0"
  by (simp add: table_uncertainty_1e3_def)

lemma table_sorted: "sorted_wrt (<) table_uncertainty_1e3"
  unfolding table_uncertainty_1e3_def
  by (simp only: sorted_wrt2 [OF transp_on_less] sorted_wrt1) simp


lemma table_mono:
  assumes "i \<le> j" "j < 128"
  shows "table_uncertainty_1e3 ! i \<le> table_uncertainty_1e3 ! j"
proof (cases "i = j")
  case True
  then show ?thesis by simp
next
  case False
  with assms have "i < j" "j < length table_uncertainty_1e3" by (simp_all add: table_length)
  with table_sorted have "table_uncertainty_1e3 ! i < table_uncertainty_1e3 ! j"
    by (simp add: sorted_wrt_iff_nth_less)
  then show ?thesis by simp
qed

lemma table_strict:
  assumes "i < j" "j < 128"
  shows "table_uncertainty_1e3 ! i < table_uncertainty_1e3 ! j"
  using assms table_sorted by (simp add: sorted_wrt_iff_nth_less table_length)

lemma unat_u8_succ: "(ix :: 8 word) < 128 \<Longrightarrow> unat (ix + 1) = unat ix + 1"
proof -
  assume "ix < 128"
  then have "unat ix < 128" by (simp add: word_less_nat_alt)
  then show ?thesis by (simp add: unat_word_ariths)
qed

lemma unat_u8_pred: "0 < unat (ix :: 8 word) \<Longrightarrow> unat (ix - 1) = unat ix - 1"
proof -
  assume "0 < unat ix"
  then have "ix \<noteq> 0" by auto
  then show ?thesis by (rule unat_minus_one)
qed

lemma enc_unc_loop_spec:
  "0 < unat ix \<Longrightarrow> unat ix \<le> 128 \<Longrightarrow>
   (\<forall>j<unat ix. table_uncertainty_1e3 ! j \<le> mm) \<Longrightarrow>
   unat (enc_unc_loop ix mm) < 128
   \<and> table_uncertainty_1e3 ! unat (enc_unc_loop ix mm) \<le> mm
   \<and> (\<forall>k<128. table_uncertainty_1e3 ! k \<le> mm \<longrightarrow> k \<le> unat (enc_unc_loop ix mm))"
proof (induction ix mm rule: enc_unc_loop.induct)
  case (1 ix mm)
  show ?case
  proof (cases "ix < 128")
    case lt: True
    then have ult: "unat ix < 128" by (simp add: word_less_nat_alt)
    show ?thesis
    proof (cases "mm < table_uncertainty_1e3 ! unat ix")
      case True
      have r: "enc_unc_loop ix mm = ix - 1" using lt True by simp
      have p: "unat (ix - 1) = unat ix - 1" using "1.prems"(1) by (rule unat_u8_pred)
      have "\<forall>k<128. table_uncertainty_1e3 ! k \<le> mm \<longrightarrow> k \<le> unat ix - 1"
      proof (intro allI impI)
        fix k assume k: "k < 128" "table_uncertainty_1e3 ! k \<le> mm"
        show "k \<le> unat ix - 1"
        proof (rule ccontr)
          assume "\<not> k \<le> unat ix - 1"
          then have "unat ix \<le> k" by simp
          then have "table_uncertainty_1e3 ! unat ix \<le> table_uncertainty_1e3 ! k"
            using k(1) by (rule table_mono)
          with True k(2) show False by simp
        qed
      qed
      moreover have "table_uncertainty_1e3 ! (unat ix - 1) \<le> mm"
        using "1.prems" by simp
      moreover have "unat ix - 1 < 128" using ult by simp
      ultimately show ?thesis by (simp only: r p) 
    next
      case False
      have r: "enc_unc_loop ix mm = enc_unc_loop (ix + 1) mm" using lt False by simp
      have s: "unat (ix + 1) = unat ix + 1" using lt by (rule unat_u8_succ)
      have inv: "\<forall>j<unat (ix + 1). table_uncertainty_1e3 ! j \<le> mm"
        using "1.prems"(3) False by (auto simp add: s less_Suc_eq)
      have b: "0 < unat (ix + 1)" "unat (ix + 1) \<le> 128" using ult by (simp_all add: s)
      from "1.IH" [OF lt False b inv] show ?thesis unfolding r .
    qed
  next
    case False
    then have "unat ix = 128" using "1.prems"(2) by (simp add: word_less_nat_alt)
    moreover have "enc_unc_loop ix mm = 127" using False by simp
    ultimately show ?thesis using "1.prems"(3) by auto
  qed
qed

lemma enc_unc_spec:
  "unat (osmo_gad_enc_unc mm) < 128
   \<and> table_uncertainty_1e3 ! unat (osmo_gad_enc_unc mm) \<le> mm
   \<and> (\<forall>k<128. table_uncertainty_1e3 ! k \<le> mm \<longrightarrow> k \<le> unat (osmo_gad_enc_unc mm))"
proof -
  have "enc_unc_loop 0 mm = enc_unc_loop (0 + 1) mm"
    by (subst enc_unc_loop.simps) (simp add: table_first)
  then have e: "osmo_gad_enc_unc mm = enc_unc_loop 1 mm"
    by (simp add: osmo_gad_enc_unc_def)
  have "\<forall>j<unat (1 :: 8 word). table_uncertainty_1e3 ! j \<le> mm"
    by (simp add: table_first)
  then show ?thesis
    unfolding e by (intro enc_unc_loop_spec) simp_all
qed


lemma and_0x7f_u8:
  fixes code :: "8 word"
  assumes "code \<le> 127"
  shows "code AND 0x7f = code"
proof -
  have u: "uint code < 128" using assms by (simp add: word_le_def)
  have "(0x7f :: 8 word) = mask 7" by (simp add: mask_eq_exp_minus_1)
  then have "code AND 0x7f = take_bit 7 code" by (simp add: take_bit_eq_mask)
  also have "\<dots> = word_of_int (take_bit 7 (uint code))"
    by (rule bit_word_eqI) (auto simp add: bit_simps)
  also have "take_bit 7 (uint code) = uint code"
    using u by (intro take_bit_int_eq_self) simp_all
  finally show ?thesis by simp
qed

lemma enc_unc_table_entry:
  assumes k: "k < 128"
  shows "unat (osmo_gad_enc_unc (table_uncertainty_1e3 ! k)) = k"
proof -
  define mm where "mm = table_uncertainty_1e3 ! k"
  define r where "r = unat (osmo_gad_enc_unc mm)"
  have r: "r < 128" "table_uncertainty_1e3 ! r \<le> mm"
    "\<forall>j<128. table_uncertainty_1e3 ! j \<le> mm \<longrightarrow> j \<le> r"
    using enc_unc_spec [of mm] by (simp_all add: r_def)
  have "k \<le> r" using r(3) k by (simp add: mm_def)
  moreover have "r \<le> k"
  proof (rule ccontr)
    assume "\<not> r \<le> k"
    then have "k < r" by simp
    then have "table_uncertainty_1e3 ! k < table_uncertainty_1e3 ! r"
      using r(1) by (rule table_strict)
    with r(2) show False by (simp add: mm_def)
  qed
  ultimately show ?thesis by (simp add: r_def mm_def)
qed

text \<open>
  C3. For every uncertainty code in \<open>[0, 127]\<close>, encoding the decoded value gives back the
  code: a table value is encoded as the index it was read from.
\<close>

theorem unc_dec_enc_roundtrip:
  assumes "code \<le> 127"
  shows "osmo_gad_enc_unc (osmo_gad_dec_unc code) = code"
proof -
  have k: "unat code < 128" using assms by (simp add: word_le_nat_alt)
  have dec: "osmo_gad_dec_unc code = table_uncertainty_1e3 ! unat code"
    using assms by (simp add: osmo_gad_dec_unc_def and_0x7f_u8)
  have "unat (osmo_gad_enc_unc (table_uncertainty_1e3 ! unat code)) = unat code"
    using k by (rule enc_unc_table_entry)
  then have "osmo_gad_enc_unc (table_uncertainty_1e3 ! unat code) = code"
    by (simp only: word_unat_eq_iff)
  then show ?thesis by (simp only: dec)
qed

theorem unc_dec_enc_roundtrip_witness:
  "(40 :: 8 word) \<le> 127 \<and> osmo_gad_dec_unc 40 = 442592 \<and> osmo_gad_enc_unc 442592 = 40"
proof -
  have "osmo_gad_dec_unc 40 = 442592"
    by (simp add: osmo_gad_dec_unc_def table_uncertainty_1e3_def)
  with unc_dec_enc_roundtrip [of 40] show ?thesis by simp
qed

text \<open>
  C8. For every \<open>mm\<close>, \<open>osmo_gad_enc_unc\<close> returns the largest index \<open>k\<close> in
  \<open>[0, 127]\<close> whose table entry is at most \<open>mm\<close>; that is the first index whose entry
  exceeds \<open>mm\<close>, minus one, and 127 when \<open>mm\<close> is at least the last entry. The first
  entry is 0, so such an index always exists.
\<close>

theorem enc_unc_largest_index:
  "unat (osmo_gad_enc_unc mm) < 128
   \<and> table_uncertainty_1e3 ! unat (osmo_gad_enc_unc mm) \<le> mm
   \<and> (\<forall>k<128. table_uncertainty_1e3 ! k \<le> mm \<longrightarrow> k \<le> unat (osmo_gad_enc_unc mm))
   \<and> (\<forall>k<128. mm < table_uncertainty_1e3 ! k \<and> (\<forall>j<k. \<not> mm < table_uncertainty_1e3 ! j)
          \<longrightarrow> unat (osmo_gad_enc_unc mm) = k - 1)
   \<and> (table_uncertainty_1e3 ! 127 \<le> mm \<longrightarrow> osmo_gad_enc_unc mm = 127)"
proof -
  define r where "r = unat (osmo_gad_enc_unc mm)"
  have r: "r < 128" "table_uncertainty_1e3 ! r \<le> mm"
    "\<forall>j<128. table_uncertainty_1e3 ! j \<le> mm \<longrightarrow> j \<le> r"
    using enc_unc_spec [of mm] by (simp_all add: r_def)
  have first: "r = k - 1"
    if k: "k < 128" "mm < table_uncertainty_1e3 ! k" "\<forall>j<k. \<not> mm < table_uncertainty_1e3 ! j" for k
  proof -
    have "k \<noteq> 0" using k(2) by (auto simp add: table_first intro: ccontr)
    then have "table_uncertainty_1e3 ! (k - 1) \<le> mm" using k(3) by (simp add: not_less)
    then have "k - 1 \<le> r" using r(3) k(1) by simp
    moreover have "r < k"
    proof (rule ccontr)
      assume "\<not> r < k"
      then have "k \<le> r" by simp
      then have "table_uncertainty_1e3 ! k \<le> table_uncertainty_1e3 ! r"
        using r(1) by (rule table_mono)
      with r(2) k(2) show False by simp
    qed
    ultimately show ?thesis by simp
  qed
  have last: "osmo_gad_enc_unc mm = 127" if "table_uncertainty_1e3 ! 127 \<le> mm"
  proof -
    have "127 \<le> r" using r(3) that by simp
    with r(1) have "unat (osmo_gad_enc_unc mm) = unat (127 :: 8 word)" by (simp add: r_def)
    then show ?thesis by (simp only: word_unat_eq_iff)
  qed
  show ?thesis
    using r first last unfolding r_def by blast
qed

theorem enc_unc_largest_index_witness:
  "osmo_gad_enc_unc 5000 = 4 \<and> table_uncertainty_1e3 ! 4 \<le> 5000
   \<and> 5000 < table_uncertainty_1e3 ! 5
   \<and> table_uncertainty_1e3 ! 127 \<le> 2000000000 \<and> osmo_gad_enc_unc 2000000000 = 127"
proof -
  have a: "table_uncertainty_1e3 ! 4 \<le> 5000" "5000 < table_uncertainty_1e3 ! 5"
    "table_uncertainty_1e3 ! 127 \<le> 2000000000"
    by (simp_all add: table_uncertainty_1e3_def)
  have "4 \<le> unat (osmo_gad_enc_unc 5000)"
    using enc_unc_largest_index [of 5000] a(1) by simp
  moreover have "unat (osmo_gad_enc_unc 5000) < 5"
  proof (rule ccontr)
    assume "\<not> unat (osmo_gad_enc_unc 5000) < 5"
    then have "5 \<le> unat (osmo_gad_enc_unc 5000)" by simp
    moreover have "unat (osmo_gad_enc_unc 5000) < 128"
      using enc_unc_largest_index [of 5000] by simp
    ultimately have "table_uncertainty_1e3 ! 5 \<le> table_uncertainty_1e3 ! unat (osmo_gad_enc_unc 5000)"
      by (rule table_mono)
    moreover have "table_uncertainty_1e3 ! unat (osmo_gad_enc_unc 5000) \<le> 5000"
      using enc_unc_largest_index [of 5000] by simp
    ultimately show False using a(2) by simp
  qed
  ultimately have "unat (osmo_gad_enc_unc 5000) = unat (4 :: 8 word)" by simp
  then have "osmo_gad_enc_unc 5000 = 4" by (simp only: word_unat_eq_iff)
  moreover have "osmo_gad_enc_unc 2000000000 = 127"
    using enc_unc_largest_index [of 2000000000] a(3) by simp
  ultimately show ?thesis using a by simp
qed

section \<open>Encoding the point with uncertainty circle\<close>

lemma store_u24be:
  "osmo_store32be_ext val 3 = [ucast (drop_bit 16 val), ucast (drop_bit 8 val), ucast val]"
proof -
  have m: "(ucast (w AND 0xFF) :: 8 word) = ucast w" for w :: "32 word"
  proof -
    have "(0xFF :: 32 word) = mask 8" by (simp add: mask_eq_exp_minus_1)
    then have "w AND 0xFF = take_bit 8 w" by (simp add: take_bit_eq_mask)
    then show ?thesis by (simp add: bit_word_eqI bit_simps)
  qed
  have "[0..<3] = [0, 1, 2]" by (simp add: upt_rec)
  then show ?thesis by (simp add: osmo_store32be_ext_def m)
qed

lemma enc_unc_442592: "osmo_gad_enc_unc 442592 = 40"
proof -
  have "table_uncertainty_1e3 ! 40 = 442592"
    by (simp add: table_uncertainty_1e3_def)
  then have "unat (osmo_gad_enc_unc 442592) = unat (40 :: 8 word)"
    using enc_unc_table_entry [of 40] by simp
  then show ?thesis by (simp only: word_unat_eq_iff)
qed

text \<open>
  C5. For a PDU of type \<open>GAD_TYPE_ELL_POINT_UNC_CIRCLE\<close>, \<open>osmo_gad_enc\<close> appends exactly
  8 bytes and returns 8: byte 0 is \<open>(GAD_TYPE_ELL_POINT_UNC_CIRCLE << 4) | 0\<close>, bytes 1-3
  are the encoded latitude as a big-endian 24-bit value, bytes 4-6 the encoded longitude
  likewise, and byte 7 is the encoded uncertainty.
\<close>

theorem osmo_gad_enc_circle_layout:
  assumes "type gad = GAD_TYPE_ELL_POINT_UNC_CIRCLE"
  shows "osmo_gad_enc msg gad =
     (let v = ell_point_unc_circle gad;
          la = osmo_gad_enc_lat (lat v);
          lo = osmo_gad_enc_lon (lon v)
      in (8, msg @ [word_of_int (push_bit 4 GAD_TYPE_ELL_POINT_UNC_CIRCLE OR 0),
                    ucast (drop_bit 16 la), ucast (drop_bit 8 la), ucast la,
                    ucast (drop_bit 16 lo), ucast (drop_bit 8 lo), ucast lo,
                    osmo_gad_enc_unc (unc v)]))"
  using assms
  by (simp add: osmo_gad_enc_def osmo_gad_enc_ell_point_unc_circle_def Let_def
      msgb_put_u8_def put_u24be_def store_u24be)

theorem osmo_gad_enc_circle_layout_witness:
  "type \<lparr>type = 1, ell_point_unc_circle = \<lparr>lat = 23000006, lon = 42000002, unc = 442592\<rparr>,
         u_rest = []\<rparr> = GAD_TYPE_ELL_POINT_UNC_CIRCLE
   \<and> osmo_gad_enc []
        \<lparr>type = 1, ell_point_unc_circle = \<lparr>lat = 23000006, lon = 42000002, unc = 442592\<rparr>,
         u_rest = []\<rparr>
       = (8, [0x10, 0x20, 0xb6, 0x0c, 0x1d, 0xdd, 0xde, 0x28])"
proof -
  have la: "osmo_gad_enc_lat 23000006 = 0x20b60c"
    by (simp add: osmo_gad_enc_lat_def sdiv64_def Let_def signed_divide_int_def)
  have lo: "osmo_gad_enc_lon 42000002 = 0x1dddde"
    by (simp add: osmo_gad_enc_lon_def sdiv64_def Let_def signed_divide_int_def)
  have t: "type \<lparr>type = 1, ell_point_unc_circle = \<lparr>lat = 23000006, lon = 42000002, unc = 442592\<rparr>,
         u_rest = []\<rparr> = GAD_TYPE_ELL_POINT_UNC_CIRCLE"
    by (simp add: GAD_TYPE_ELL_POINT_UNC_CIRCLE_def)
  show ?thesis
    using osmo_gad_enc_circle_layout [OF t, of "[]"] t
    by (simp add: la lo enc_unc_442592 Let_def GAD_TYPE_ELL_POINT_UNC_CIRCLE_def)
qed

section \<open>Unsupported types\<close>

text \<open>
  C7. For every discriminator other than \<open>GAD_TYPE_ELL_POINT_UNC_CIRCLE\<close>, the
  unassigned codes 2, 4, 6 and 7 included, \<open>osmo_gad_enc\<close> returns \<open>-ENOTSUP\<close> and
  leaves the buffer as it was, and \<open>osmo_gad_dec\<close> of a non-empty buffer with that type
  nibble returns \<open>-ENOTSUP\<close>: the PDU holds the nibble as its type and no decoded field,
  and the error record carries \<open>-ENOTSUP\<close> and the nibble.
\<close>

theorem not_supported:
  "(type gad \<noteq> GAD_TYPE_ELL_POINT_UNC_CIRCLE \<longrightarrow> osmo_gad_enc msg gad = (- ENOTSUP, msg))
   \<and> (data \<noteq> [] \<and> uint (drop_bit 4 (data ! 0)) \<noteq> GAD_TYPE_ELL_POINT_UNC_CIRCLE \<longrightarrow>
        osmo_gad_dec unk err pdu data =
          (- ENOTSUP,
           \<lparr>type = uint (drop_bit 4 (data ! 0)),
            ell_point_unc_circle = \<lparr>lat = 0, lon = 0, unc = 0\<rparr>,
            u_rest = replicate (length (u_rest pdu)) 0\<rparr>,
           if err then
             Some \<lparr>rc = - ENOTSUP, err_type = uint (drop_bit 4 (data ! 0)),
                   logmsg = ''Error decoding GAD '' 
                            @ osmo_gad_type_name unk (uint (drop_bit 4 (data ! 0)))
                            @ '': unsupported GAD type''\<rparr>
           else None))
   \<and> - ENOTSUP \<noteq> (0 :: int)"
proof (intro conjI impI)
  assume "type gad \<noteq> GAD_TYPE_ELL_POINT_UNC_CIRCLE"
  then show "osmo_gad_enc msg gad = (- ENOTSUP, msg)"
    by (simp add: osmo_gad_enc_def)
next
  assume a: "data \<noteq> [] \<and> uint (drop_bit 4 (data ! 0)) \<noteq> GAD_TYPE_ELL_POINT_UNC_CIRCLE"
  then have "\<not> length data < 1" by (cases data) simp_all
  with a show "osmo_gad_dec unk err pdu data =
          (- ENOTSUP,
           \<lparr>type = uint (drop_bit 4 (data ! 0)),
            ell_point_unc_circle = \<lparr>lat = 0, lon = 0, unc = 0\<rparr>,
            u_rest = replicate (length (u_rest pdu)) 0\<rparr>,
           if err then
             Some \<lparr>rc = - ENOTSUP, err_type = uint (drop_bit 4 (data ! 0)),
                   logmsg = ''Error decoding GAD '' 
                            @ osmo_gad_type_name unk (uint (drop_bit 4 (data ! 0)))
                            @ '': unsupported GAD type''\<rparr>
           else None)"
    by (simp add: osmo_gad_dec_def Let_def gad_pdu_zero_def DEC_ERR_def)
next
  show "- ENOTSUP \<noteq> (0 :: int)" by (simp add: ENOTSUP_def)
qed


theorem not_supported_witness:
  "type \<lparr>type = 2, ell_point_unc_circle = \<lparr>lat = 1, lon = 2, unc = 3\<rparr>, u_rest = []\<rparr>
      \<noteq> GAD_TYPE_ELL_POINT_UNC_CIRCLE
   \<and> osmo_gad_enc [0xAA]
        \<lparr>type = 2, ell_point_unc_circle = \<lparr>lat = 1, lon = 2, unc = 3\<rparr>, u_rest = []\<rparr>
       = (- 95, [0xAA])
   \<and> [0x50 :: 8 word, 0x01] \<noteq> []
   \<and> uint (drop_bit 4 ([0x50 :: 8 word, 0x01] ! 0)) \<noteq> GAD_TYPE_ELL_POINT_UNC_CIRCLE
   \<and> osmo_gad_dec (\<lambda>v. ''unknown'') True
        \<lparr>type = 1, ell_point_unc_circle = \<lparr>lat = 7, lon = 8, unc = 9\<rparr>, u_rest = [0xFF]\<rparr>
        [0x50, 0x01]
       = (- 95,
          \<lparr>type = 5, ell_point_unc_circle = \<lparr>lat = 0, lon = 0, unc = 0\<rparr>, u_rest = [0]\<rparr>,
          Some \<lparr>rc = - 95, err_type = 5,
                logmsg = ''Error decoding GAD Polygon: unsupported GAD type''\<rparr>)"
proof -
  have n: "uint (drop_bit 4 ([0x50 :: 8 word, 0x01] ! 0)) = 5" by simp
  have "osmo_gad_type_name (\<lambda>v. ''unknown'') 5 = ''Polygon''"
    by (simp add: osmo_gad_type_name_def osmo_gad_type_names_def GAD_TYPE_ELL_POINT_def
        GAD_TYPE_ELL_POINT_UNC_CIRCLE_def GAD_TYPE_ELL_POINT_UNC_ELLIPSE_def
        GAD_TYPE_POLYGON_def)
  then show ?thesis
    using not_supported [where gad = "\<lparr>type = 2, ell_point_unc_circle = \<lparr>lat = 1, lon = 2, unc = 3\<rparr>, u_rest = []\<rparr>"
        and msg = "[0xAA]" and data = "[0x50, 0x01]" and unk = "\<lambda>v. ''unknown''" and err = True
        and pdu = "\<lparr>type = 1, ell_point_unc_circle = \<lparr>lat = 7, lon = 8, unc = 9\<rparr>, u_rest = [0xFF]\<rparr>"]
    by (simp add: n GAD_TYPE_ELL_POINT_UNC_CIRCLE_def ENOTSUP_def)
qed


section \<open>Decode errors\<close>

lemma bit7_u8: "(b :: 8 word) AND 0x80 \<noteq> 0 \<longleftrightarrow> bit b 7"
proof -
  have "(0x80 :: 8 word) = 2 ^ 7" by simp
  then have "b AND 0x80 = 0 \<longleftrightarrow> \<not> bit b 7"
    by (simp only: and_exp_eq_0_iff_not_bit)
  then show ?thesis by simp
qed

text \<open>
  C6. \<open>osmo_gad_dec\<close> classifies its failures as follows. Zero-length input: \<open>-EINVAL\<close>
  with the message "zero length" and no type (EmptyInput). Type nibble
  \<open>GAD_TYPE_ELL_POINT_UNC_CIRCLE\<close> and a length other than 8: \<open>-EINVAL\<close> with the message
  "Expecting length of 8 bytes" (InvalidLength). Eight bytes of that type with bit 7 of
  byte 7 set: \<open>-EINVAL\<close> with the message "Bit 8 of Uncertainty code should be zero"
  (ReservedBitSet). Eight bytes of that type with bit 7 of byte 7 clear: the decode
  succeeds, returns 0 and reports no error.
\<close>

theorem dec_error_classification:
  "(data = [] \<longrightarrow>
      osmo_gad_dec unk err pdu data =
        (- EINVAL, pdu,
         if err then Some \<lparr>rc = - EINVAL, err_type = - 1,
                            logmsg = ''Error decoding GAD: zero length''\<rparr>
         else None))
   \<and> (data \<noteq> [] \<and> uint (drop_bit 4 (data ! 0)) = GAD_TYPE_ELL_POINT_UNC_CIRCLE
        \<and> length data \<noteq> 8 \<longrightarrow>
      fst (osmo_gad_dec unk err pdu data) = - EINVAL
      \<and> snd (snd (osmo_gad_dec unk err pdu data)) =
          (if err then
             Some \<lparr>rc = - EINVAL, err_type = GAD_TYPE_ELL_POINT_UNC_CIRCLE,
                   logmsg = ''Error decoding GAD: Expecting length of 8 bytes, got ''
                            @ fmt_u (length data)\<rparr>
           else None))
   \<and> (length data = 8 \<and> uint (drop_bit 4 (data ! 0)) = GAD_TYPE_ELL_POINT_UNC_CIRCLE
        \<and> bit (data ! 7) 7 \<longrightarrow>
      fst (osmo_gad_dec unk err pdu data) = - EINVAL
      \<and> snd (snd (osmo_gad_dec unk err pdu data)) =
          (if err then
             Some \<lparr>rc = - EINVAL, err_type = GAD_TYPE_ELL_POINT_UNC_CIRCLE,
                   logmsg = ''Error decoding GAD: Bit 8 of Uncertainty code should be zero (unc = 0x''
                            @ fmt_x (unat (data ! 7)) @ '')''\<rparr>
           else None))
   \<and> (length data = 8 \<and> uint (drop_bit 4 (data ! 0)) = GAD_TYPE_ELL_POINT_UNC_CIRCLE
        \<and> \<not> bit (data ! 7) 7 \<longrightarrow>
      fst (osmo_gad_dec unk err pdu data) = 0
      \<and> snd (snd (osmo_gad_dec unk err pdu data)) = None)
   \<and> - EINVAL \<noteq> (0 :: int)"
proof (intro conjI impI)
  assume "data = []"
  then show "osmo_gad_dec unk err pdu data =
        (- EINVAL, pdu,
         if err then Some \<lparr>rc = - EINVAL, err_type = - 1,
                            logmsg = ''Error decoding GAD: zero length''\<rparr>
         else None)"
    by (simp add: osmo_gad_dec_def DEC_ERR_def)
next
  assume a: "data \<noteq> [] \<and> uint (drop_bit 4 (data ! 0)) = GAD_TYPE_ELL_POINT_UNC_CIRCLE
        \<and> length data \<noteq> 8"
  then have l: "\<not> length data < 1" by (cases data) simp_all
  from a l show "fst (osmo_gad_dec unk err pdu data) = - EINVAL"
    by (simp add: osmo_gad_dec_def Let_def osmo_gad_dec_ell_point_unc_circle_def)
  from a l show "snd (snd (osmo_gad_dec unk err pdu data)) =
          (if err then
             Some \<lparr>rc = - EINVAL, err_type = GAD_TYPE_ELL_POINT_UNC_CIRCLE,
                   logmsg = ''Error decoding GAD: Expecting length of 8 bytes, got ''
                            @ fmt_u (length data)\<rparr>
           else None)"
    by (simp add: osmo_gad_dec_def Let_def osmo_gad_dec_ell_point_unc_circle_def DEC_ERR_def
        del: fmt_u.simps)
next
  assume a: "length data = 8 \<and> uint (drop_bit 4 (data ! 0)) = GAD_TYPE_ELL_POINT_UNC_CIRCLE
        \<and> bit (data ! 7) 7"
  then have r: "data ! 7 AND 0x80 \<noteq> 0" by (simp only: bit7_u8)
  from a r show "fst (osmo_gad_dec unk err pdu data) = - EINVAL"
    by (simp add: osmo_gad_dec_def Let_def osmo_gad_dec_ell_point_unc_circle_def)
  from a r show "snd (snd (osmo_gad_dec unk err pdu data)) =
          (if err then
             Some \<lparr>rc = - EINVAL, err_type = GAD_TYPE_ELL_POINT_UNC_CIRCLE,
                   logmsg = ''Error decoding GAD: Bit 8 of Uncertainty code should be zero (unc = 0x''
                            @ fmt_x (unat (data ! 7)) @ '')''\<rparr>
           else None)"
    by (simp add: osmo_gad_dec_def Let_def osmo_gad_dec_ell_point_unc_circle_def DEC_ERR_def
        del: fmt_x.simps)
next
  assume a: "length data = 8 \<and> uint (drop_bit 4 (data ! 0)) = GAD_TYPE_ELL_POINT_UNC_CIRCLE
        \<and> \<not> bit (data ! 7) 7"
  then have r: "data ! 7 AND 0x80 = 0" using bit7_u8 [of "data ! 7"] by simp
  from a r show "fst (osmo_gad_dec unk err pdu data) = 0"
    by (simp add: osmo_gad_dec_def Let_def osmo_gad_dec_ell_point_unc_circle_def)
  from a r show "snd (snd (osmo_gad_dec unk err pdu data)) = None"
    by (simp add: osmo_gad_dec_def Let_def osmo_gad_dec_ell_point_unc_circle_def)
next
  show "- EINVAL \<noteq> (0 :: int)" by (simp add: EINVAL_def)
qed


theorem dec_error_classification_witness:
  "osmo_gad_dec (\<lambda>v. ''unknown'') True
      \<lparr>type = 5, ell_point_unc_circle = \<lparr>lat = 7, lon = 8, unc = 9\<rparr>, u_rest = []\<rparr> []
     = (- 22, \<lparr>type = 5, ell_point_unc_circle = \<lparr>lat = 7, lon = 8, unc = 9\<rparr>, u_rest = []\<rparr>,
        Some \<lparr>rc = - 22, err_type = - 1, logmsg = ''Error decoding GAD: zero length''\<rparr>)
   \<and> [0x10 :: 8 word, 0x00] \<noteq> []
   \<and> uint (drop_bit 4 ([0x10 :: 8 word, 0x00] ! 0)) = GAD_TYPE_ELL_POINT_UNC_CIRCLE
   \<and> length [0x10 :: 8 word, 0x00] \<noteq> 8
   \<and> fst (osmo_gad_dec (\<lambda>v. ''unknown'') True
          \<lparr>type = 5, ell_point_unc_circle = \<lparr>lat = 7, lon = 8, unc = 9\<rparr>, u_rest = []\<rparr>
          [0x10, 0x00]) = - 22
   \<and> snd (snd (osmo_gad_dec (\<lambda>v. ''unknown'') True
          \<lparr>type = 5, ell_point_unc_circle = \<lparr>lat = 7, lon = 8, unc = 9\<rparr>, u_rest = []\<rparr>
          [0x10, 0x00]))
       = Some \<lparr>rc = - 22, err_type = 1,
               logmsg = ''Error decoding GAD: Expecting length of 8 bytes, got 2''\<rparr>
   \<and> length [0x10 :: 8 word, 0x20, 0xb6, 0x0c, 0x1d, 0xdd, 0xde, 0xa8] = 8
   \<and> bit ([0x10 :: 8 word, 0x20, 0xb6, 0x0c, 0x1d, 0xdd, 0xde, 0xa8] ! 7) 7
   \<and> fst (osmo_gad_dec (\<lambda>v. ''unknown'') True
          \<lparr>type = 5, ell_point_unc_circle = \<lparr>lat = 7, lon = 8, unc = 9\<rparr>, u_rest = []\<rparr>
          [0x10, 0x20, 0xb6, 0x0c, 0x1d, 0xdd, 0xde, 0xa8]) = - 22
   \<and> snd (snd (osmo_gad_dec (\<lambda>v. ''unknown'') True
          \<lparr>type = 5, ell_point_unc_circle = \<lparr>lat = 7, lon = 8, unc = 9\<rparr>, u_rest = []\<rparr>
          [0x10, 0x20, 0xb6, 0x0c, 0x1d, 0xdd, 0xde, 0xa8]))
       = Some \<lparr>rc = - 22, err_type = 1,
               logmsg = ''Error decoding GAD: Bit 8 of Uncertainty code should be zero (unc = 0xa8)''\<rparr>
   \<and> \<not> bit ([0x10 :: 8 word, 0x20, 0xb6, 0x0c, 0x1d, 0xdd, 0xde, 0x28] ! 7) 7
   \<and> fst (osmo_gad_dec (\<lambda>v. ''unknown'') True
          \<lparr>type = 5, ell_point_unc_circle = \<lparr>lat = 7, lon = 8, unc = 9\<rparr>, u_rest = []\<rparr>
          [0x10, 0x20, 0xb6, 0x0c, 0x1d, 0xdd, 0xde, 0x28]) = 0
   \<and> snd (snd (osmo_gad_dec (\<lambda>v. ''unknown'') True
          \<lparr>type = 5, ell_point_unc_circle = \<lparr>lat = 7, lon = 8, unc = 9\<rparr>, u_rest = []\<rparr>
          [0x10, 0x20, 0xb6, 0x0c, 0x1d, 0xdd, 0xde, 0x28])) = None"
proof -
  let ?unk = "\<lambda>v :: int. ''unknown''"
  let ?pdu = "\<lparr>type = 5, ell_point_unc_circle = \<lparr>lat = 7, lon = 8, unc = 9\<rparr>, u_rest = []\<rparr>"
  have n: "uint (drop_bit 4 (0x10 :: 8 word)) = 1" by simp
  have b1: "bit (0xa8 :: 8 word) 7" by (simp add: bit_iff_odd)
  have b2: "\<not> bit (0x28 :: 8 word) 7" by (simp add: bit_iff_odd)
  have u: "fmt_u (Suc (Suc 0)) = ''2''" by (simp add: digit_char_def)
  have x: "fmt_x 168 = ''a8''" by (simp add: digit_char_def)
  have c1: "osmo_gad_dec ?unk True ?pdu [] =
      (- 22, ?pdu, Some \<lparr>rc = - 22, err_type = - 1, logmsg = ''Error decoding GAD: zero length''\<rparr>)"
    using dec_error_classification [where data = "[]" and unk = ?unk and err = True and pdu = ?pdu]
    by (simp add: EINVAL_def)
  have c2: "fst (osmo_gad_dec ?unk True ?pdu [0x10, 0x00]) = - 22
    \<and> snd (snd (osmo_gad_dec ?unk True ?pdu [0x10, 0x00]))
       = Some \<lparr>rc = - 22, err_type = 1,
               logmsg = ''Error decoding GAD: Expecting length of 8 bytes, got 2''\<rparr>"
    using dec_error_classification [where data = "[0x10, 0x00]" and unk = ?unk and err = True and pdu = ?pdu]
    by (simp add: EINVAL_def GAD_TYPE_ELL_POINT_UNC_CIRCLE_def n u del: fmt_u.simps)
  have c3: "fst (osmo_gad_dec ?unk True ?pdu [0x10, 0x20, 0xb6, 0x0c, 0x1d, 0xdd, 0xde, 0xa8]) = - 22
    \<and> snd (snd (osmo_gad_dec ?unk True ?pdu [0x10, 0x20, 0xb6, 0x0c, 0x1d, 0xdd, 0xde, 0xa8]))
       = Some \<lparr>rc = - 22, err_type = 1,
               logmsg = ''Error decoding GAD: Bit 8 of Uncertainty code should be zero (unc = 0xa8)''\<rparr>"
    using dec_error_classification [where data = "[0x10, 0x20, 0xb6, 0x0c, 0x1d, 0xdd, 0xde, 0xa8]"
        and unk = ?unk and err = True and pdu = ?pdu]
    by (simp add: EINVAL_def GAD_TYPE_ELL_POINT_UNC_CIRCLE_def n b1 x del: fmt_x.simps)
  have c4: "fst (osmo_gad_dec ?unk True ?pdu [0x10, 0x20, 0xb6, 0x0c, 0x1d, 0xdd, 0xde, 0x28]) = 0
    \<and> snd (snd (osmo_gad_dec ?unk True ?pdu [0x10, 0x20, 0xb6, 0x0c, 0x1d, 0xdd, 0xde, 0x28])) = None"
    using dec_error_classification [where data = "[0x10, 0x20, 0xb6, 0x0c, 0x1d, 0xdd, 0xde, 0x28]"
        and unk = ?unk and err = True and pdu = ?pdu]
    by (simp add: GAD_TYPE_ELL_POINT_UNC_CIRCLE_def n b2)
  show ?thesis
    using c1 c2 c3 c4 b1 b2 by (simp add: GAD_TYPE_ELL_POINT_UNC_CIRCLE_def n)
qed

section \<open>Initialisation of the decoded PDU\<close>

lemma load_u24be:
  "osmo_load32be_ext_2 (a # b # c # rest) 3 = push_bit 16 (ucast a) OR push_bit 8 (ucast b) OR ucast c"
proof -
  have "[0..<3] = [0, 1, 2]" by (simp add: upt_rec)
  then show ?thesis by (simp add: osmo_load32be_ext_2_def or.assoc)
qed

text \<open>
  The output PDU is not zero-initialized on every path: for a zero-length input
  \<open>osmo_gad_dec\<close> returns before the assignment \<open>*gad = (struct gad_pdu){}\<close>, so the
  decode fails and the caller's PDU keeps its previous contents.
\<close>

theorem dec_zero_length_counterexample:
  "fst (osmo_gad_dec (\<lambda>v. ''unknown'') True
         \<lparr>type = 5,
          ell_point_unc_circle = \<lparr>lat = 0xFFFFFFFF, lon = 0xFFFFFFFF, unc = 0xFFFFFFFF\<rparr>,
          u_rest = [0xFF]\<rparr> []) = - 22
   \<and> fst (snd (osmo_gad_dec (\<lambda>v. ''unknown'') True
         \<lparr>type = 5,
          ell_point_unc_circle = \<lparr>lat = 0xFFFFFFFF, lon = 0xFFFFFFFF, unc = 0xFFFFFFFF\<rparr>,
          u_rest = [0xFF]\<rparr> []))
       = \<lparr>type = 5,
          ell_point_unc_circle = \<lparr>lat = 0xFFFFFFFF, lon = 0xFFFFFFFF, unc = 0xFFFFFFFF\<rparr>,
          u_rest = [0xFF]\<rparr>
   \<and> fst (snd (osmo_gad_dec (\<lambda>v. ''unknown'') True
         \<lparr>type = 5,
          ell_point_unc_circle = \<lparr>lat = 0xFFFFFFFF, lon = 0xFFFFFFFF, unc = 0xFFFFFFFF\<rparr>,
          u_rest = [0xFF]\<rparr> []))
       \<noteq> gad_pdu_zero
           \<lparr>type = 5,
            ell_point_unc_circle = \<lparr>lat = 0xFFFFFFFF, lon = 0xFFFFFFFF, unc = 0xFFFFFFFF\<rparr>,
            u_rest = [0xFF]\<rparr>"
  by (simp add: osmo_gad_dec_def gad_pdu_zero_def EINVAL_def)

text \<open>
  C4, amended. For every non-empty input buffer, \<open>osmo_gad_dec\<close> zero-initializes the
  output PDU before it populates any field, whether the decode succeeds or fails: nothing
  of the PDU's previous contents remains, its type is the type nibble, and every other
  field is zero or a value decoded from this input. For a zero-length input the PDU is left
  as it was.
\<close>

theorem dec_zero_init_nonempty:
  "(data \<noteq> [] \<longrightarrow>
      fst (snd (osmo_gad_dec unk err pdu data)) =
        \<lparr>type = uint (drop_bit 4 (data ! 0)),
         ell_point_unc_circle =
           (if uint (drop_bit 4 (data ! 0)) = GAD_TYPE_ELL_POINT_UNC_CIRCLE \<and> length data = 8
            then \<lparr>lat = osmo_gad_dec_lat (osmo_load32be_ext_2 (drop 1 data) 3),
                  lon = osmo_gad_dec_lon (osmo_load32be_ext_2 (drop 4 data) 3),
                  unc = (if bit (data ! 7) 7 then 0 else osmo_gad_dec_unc (data ! 7))\<rparr>
            else \<lparr>lat = 0, lon = 0, unc = 0\<rparr>),
         u_rest = replicate (length (u_rest pdu)) 0\<rparr>)
   \<and> fst (snd (osmo_gad_dec unk err pdu [])) = pdu"
proof (intro conjI impI)
  assume "data \<noteq> []"
  then have l: "\<not> length data < 1" by (cases data) simp_all
  show "fst (snd (osmo_gad_dec unk err pdu data)) =
        \<lparr>type = uint (drop_bit 4 (data ! 0)),
         ell_point_unc_circle =
           (if uint (drop_bit 4 (data ! 0)) = GAD_TYPE_ELL_POINT_UNC_CIRCLE \<and> length data = 8
            then \<lparr>lat = osmo_gad_dec_lat (osmo_load32be_ext_2 (drop 1 data) 3),
                  lon = osmo_gad_dec_lon (osmo_load32be_ext_2 (drop 4 data) 3),
                  unc = (if bit (data ! 7) 7 then 0 else osmo_gad_dec_unc (data ! 7))\<rparr>
            else \<lparr>lat = 0, lon = 0, unc = 0\<rparr>),
         u_rest = replicate (length (u_rest pdu)) 0\<rparr>"
    using l
    by (simp add: osmo_gad_dec_def Let_def osmo_gad_dec_ell_point_unc_circle_def
        gad_pdu_zero_def bit7_u8)
next
  show "fst (snd (osmo_gad_dec unk err pdu [])) = pdu"
    by (simp add: osmo_gad_dec_def)
qed

theorem dec_zero_init_nonempty_witness:
  "[0x30 :: 8 word] \<noteq> []
   \<and> fst (snd (osmo_gad_dec (\<lambda>v. ''unknown'') True
         \<lparr>type = 5,
          ell_point_unc_circle = \<lparr>lat = 0xFFFFFFFF, lon = 0xFFFFFFFF, unc = 0xFFFFFFFF\<rparr>,
          u_rest = [0xFF]\<rparr> [0x30]))
       = \<lparr>type = 3, ell_point_unc_circle = \<lparr>lat = 0, lon = 0, unc = 0\<rparr>, u_rest = [0]\<rparr>
   \<and> [0x10 :: 8 word, 0x20, 0xb6, 0x0c, 0x1d, 0xdd, 0xde, 0xa8] \<noteq> []
   \<and> fst (snd (osmo_gad_dec (\<lambda>v. ''unknown'') True
         \<lparr>type = 5,
          ell_point_unc_circle = \<lparr>lat = 0xFFFFFFFF, lon = 0xFFFFFFFF, unc = 0xFFFFFFFF\<rparr>,
          u_rest = [0xFF]\<rparr> [0x10, 0x20, 0xb6, 0x0c, 0x1d, 0xdd, 0xde, 0xa8]))
       = \<lparr>type = 1, ell_point_unc_circle = \<lparr>lat = 23000006, lon = 42000002, unc = 0\<rparr>,
          u_rest = [0]\<rparr>"
proof -
  let ?unk = "\<lambda>v :: int. ''unknown''"
  let ?pdu = "\<lparr>type = 5,
          ell_point_unc_circle = \<lparr>lat = 0xFFFFFFFF, lon = 0xFFFFFFFF, unc = 0xFFFFFFFF\<rparr>,
          u_rest = [0xFF :: 8 word]\<rparr>"
  have n: "uint (drop_bit 4 (0x10 :: 8 word)) = 1" "uint (drop_bit 4 (0x30 :: 8 word)) = 3"
    by simp_all
  have b1: "bit (0xa8 :: 8 word) 7" by (simp add: bit_iff_odd)
  have la: "osmo_gad_dec_lat 0x20b60c = 23000006"
    by (simp add: osmo_gad_dec_lat_def Let_def)
  have lo: "osmo_gad_dec_lon 0x1dddde = 42000002"
    by (simp add: osmo_gad_dec_lon_def Let_def sdiv64_def signed_divide_int_def)
  have l1: "osmo_load32be_ext_2 [0x20, 0xb6, 0x0c, 0x1d, 0xdd, 0xde, 0xa8] 3 = 0x20b60c"
    by (simp add: load_u24be)
  have l2: "osmo_load32be_ext_2 [0x1d, 0xdd, 0xde, 0xa8] 3 = 0x1dddde"
    by (simp add: load_u24be)
  have c1: "fst (snd (osmo_gad_dec ?unk True ?pdu [0x30]))
       = \<lparr>type = 3, ell_point_unc_circle = \<lparr>lat = 0, lon = 0, unc = 0\<rparr>, u_rest = [0]\<rparr>"
    using dec_zero_init_nonempty [where data = "[0x30]" and unk = ?unk and err = True and pdu = ?pdu]
    by (simp add: n GAD_TYPE_ELL_POINT_UNC_CIRCLE_def)
  have c2: "fst (snd (osmo_gad_dec ?unk True ?pdu [0x10, 0x20, 0xb6, 0x0c, 0x1d, 0xdd, 0xde, 0xa8]))
       = \<lparr>type = 1, ell_point_unc_circle = \<lparr>lat = 23000006, lon = 42000002, unc = 0\<rparr>,
          u_rest = [0]\<rparr>"
    using dec_zero_init_nonempty [where data = "[0x10, 0x20, 0xb6, 0x0c, 0x1d, 0xdd, 0xde, 0xa8]"
        and unk = ?unk and err = True and pdu = ?pdu]
    by (simp add: n GAD_TYPE_ELL_POINT_UNC_CIRCLE_def b1 l1 l2 la lo)
  show ?thesis using c1 c2 by simp
qed

section \<open>Formatting an ellipsoid point\<close>

lemma to_str_ell_point:
  "osmo_gad_to_str unk micros
     (Some \<lparr>type = GAD_TYPE_ELL_POINT,
            ell_point_unc_circle = \<lparr>lat = la, lon = lo, unc = w\<rparr>, u_rest = r\<rparr>)
   = ''Ellipsoid-point{lat='' @ micros la @ '',lon='' @ micros lo
     @ ''lat='' @ micros la @ '',lon='' @ micros lo @ '',unc='' @ fmt_u (unat w) @ ''mm}''"
  by (simp add: osmo_gad_to_str_def Let_def ell_point_def osmo_gad_type_name_def
      osmo_gad_type_names_def del: fmt_u.simps)

lemma fmt_u_442592: "fmt_u 442592 = ''442592''"
  by (simp add: digit_char_def)

text \<open>
  C9. Formatting a PDU whose type is \<open>GAD_TYPE_ELL_POINT\<close> should print its \<open>lat\<close> and
  \<open>lon\<close> only. \<open>osmo_gad_to_str_buf\<close> does not: the case has no \<open>break\<close>, so the text
  continues with the fields of the uncertainty-circle variant, including the \<open>unc\<close> word
  that the plain point does not have. The theorem evaluates the formatter on such a PDU.
\<close>

theorem to_str_ell_point_prints_unc:
  "osmo_gad_to_str unk micros
     (Some \<lparr>type = GAD_TYPE_ELL_POINT,
            ell_point_unc_circle = \<lparr>lat = 23000006, lon = 42000002, unc = 442592\<rparr>,
            u_rest = []\<rparr>)
   = ''Ellipsoid-point{lat='' @ micros 23000006 @ '',lon='' @ micros 42000002
     @ ''lat='' @ micros 23000006 @ '',lon='' @ micros 42000002 @ '',unc=442592mm}''"
  by (simp add: to_str_ell_point fmt_u_442592 del: fmt_u.simps)

section \<open>Boundary values\<close>

text \<open>
  C10. At the domain boundary, \<open>osmo_gad_enc_lat 90000000\<close> is 0, the code of latitude 0,
  and \<open>osmo_gad_enc_lat (- 90000000)\<close> is \<open>0x800000\<close>, the negative-zero pattern, which
  \<open>osmo_gad_dec_lat\<close> decodes to 0.
\<close>

theorem enc_lat_boundary:
  "osmo_gad_enc_lat 90000000 = 0 \<and> osmo_gad_enc_lat 0 = 0
   \<and> osmo_gad_enc_lat (- 90000000) = 0x800000 \<and> osmo_gad_dec_lat 0x800000 = 0"
  by (simp add: osmo_gad_enc_lat_def osmo_gad_dec_lat_def sdiv64_def Let_def
      signed_divide_int_def)

end
